theory Spec2Isabelle
  imports Complex_Main
begin

section \<open>JavaScript values\<close>

text \<open>
  The payloads that travel through the signaling server are JSON-like JavaScript values.
  A number is an integer (\<open>JNum\<close>, millisecond timestamps among them), a number that is
  not an integer (\<open>JFrac\<close>, given by its exact value) or NaN. \<open>JDate\<close> is a \<open>Date\<close>
  object holding its millisecond time. A binary attachment is an object for all that the
  handlers do with a payload.
\<close>

datatype jsval =
    JUndef
  | JNull
  | JBool bool
  | JNum int
  | JFrac rat
  | JNaN
  | JStr string
  | JDate int
  | JArr "jsval list"
  | JObj "(string \<times> jsval) list"

datatype js_error = TypeError | SyntaxError

text \<open>JavaScript truthiness, as tested by \<open>if (v)\<close>, \<open>v || w\<close> and \<open>v && w\<close>.\<close>

fun truthy :: "jsval \<Rightarrow> bool" where
  "truthy JUndef = False"
| "truthy JNull = False"
| "truthy (JBool b) = b"
| "truthy (JNum n) = (n \<noteq> 0)"
| "truthy (JFrac q) = (q \<noteq> 0)"
| "truthy JNaN = False"
| "truthy (JStr s) = (s \<noteq> [])"
| "truthy (JDate t) = True"
| "truthy (JArr vs) = True"
| "truthy (JObj fs) = True"

text \<open>
  Property access \<open>v.p\<close>: a TypeError on \<open>undefined\<close> and \<open>null\<close>, the field of an
  object, \<open>undefined\<close> on everything else. The handlers read only the properties
  \<open>targetId\<close>, \<open>offer\<close>, \<open>candidate\<close>, \<open>config\<close>, \<open>status\<close> and \<open>quality\<close>, none of
  which is inherited from a prototype.
\<close>

fun get_prop :: "jsval \<Rightarrow> string \<Rightarrow> js_error + jsval" where
  "get_prop JUndef p = Inl TypeError"
| "get_prop JNull p = Inl TypeError"
| "get_prop (JObj fs) p = Inr (case map_of fs p of None \<Rightarrow> JUndef | Some v \<Rightarrow> v)"
| "get_prop v p = Inr JUndef"

fun bind_err :: "js_error + 'a \<Rightarrow> ('a \<Rightarrow> js_error + 'b) \<Rightarrow> js_error + 'b" where
  "bind_err (Inl e) f = Inl e"
| "bind_err (Inr x) f = f x"

text \<open>
  The parts of the JavaScript runtime that the server calls but does not define are
  parameters:
  \<^item> \<open>JSON.parse\<close> (\<open>None\<close> when it throws a SyntaxError) and \<open>JSON.stringify\<close> (whose
    result is a string or \<open>undefined\<close>);
  \<^item> the digits of a number, and the string and number conversion of an object, an array
    or a date, which run the value's \<open>toString\<close> and \<open>valueOf\<close> and throw a TypeError
    (\<open>None\<close>) when neither gives a primitive, as for the payload \<open>{"toString": 1}\<close>;
  \<^item> the number a string stands for;
  \<^item> the subtraction of doubles where it is not exact.
\<close>

record js_env =
  json_parse :: "string \<Rightarrow> jsval option"
  json_stringify :: "jsval \<Rightarrow> jsval"
  number_to_string :: "jsval \<Rightarrow> string"
  object_to_string :: "jsval \<Rightarrow> string option"
  string_to_number :: "string \<Rightarrow> jsval"
  object_to_number :: "jsval \<Rightarrow> jsval option"
  double_minus :: "int \<Rightarrow> jsval \<Rightarrow> jsval"

text \<open>
  The string conversion of a template literal and of \<open>'...' + v\<close>. It cannot throw on a
  primitive value.
\<close>

fun js_to_string :: "js_env \<Rightarrow> jsval \<Rightarrow> js_error + string" where
  "js_to_string env (JStr s) = Inr s"
| "js_to_string env JUndef = Inr ''undefined''"
| "js_to_string env JNull = Inr ''null''"
| "js_to_string env (JBool b) = Inr (if b then ''true'' else ''false'')"
| "js_to_string env (JNum n) = Inr (number_to_string env (JNum n))"
| "js_to_string env (JFrac q) = Inr (number_to_string env (JFrac q))"
| "js_to_string env JNaN = Inr ''NaN''"
| "js_to_string env v =
     (case object_to_string env v of None \<Rightarrow> Inl TypeError | Some s \<Rightarrow> Inr s)"

text \<open>The number conversion of \<open>-\<close>; its result is a number.\<close>

fun js_to_number :: "js_env \<Rightarrow> jsval \<Rightarrow> js_error + jsval" where
  "js_to_number env (JNum n) = Inr (JNum n)"
| "js_to_number env (JFrac q) = Inr (JFrac q)"
| "js_to_number env JNaN = Inr JNaN"
| "js_to_number env JUndef = Inr JNaN"
| "js_to_number env JNull = Inr (JNum 0)"
| "js_to_number env (JBool b) = Inr (JNum (if b then 1 else 0))"
| "js_to_number env (JStr s) = Inr (string_to_number env s)"
| "js_to_number env v =
     (case object_to_number env v of None \<Rightarrow> Inl TypeError | Some x \<Rightarrow> Inr x)"

text \<open>
  \<open>a - v\<close> for a number \<open>a\<close>. Numbers are IEEE doubles: every integer of magnitude at most
  \<open>2^53\<close> is a double, so the difference of two such integers is exact when it is in that
  range too. Everywhere else the result is the runtime's.
\<close>

definition exact_double :: "int \<Rightarrow> bool" where
  "exact_double n \<longleftrightarrow> - (2 ^ 53) \<le> n \<and> n \<le> 2 ^ 53"

definition js_minus :: "js_env \<Rightarrow> int \<Rightarrow> jsval \<Rightarrow> js_error + jsval" where
  "js_minus env a v =
     bind_err (js_to_number env v) (\<lambda>x.
       Inr (case x of
              JNum n \<Rightarrow> if exact_double a \<and> exact_double n \<and> exact_double (a - n)
                        then JNum (a - n) else double_minus env a x
            | JNaN \<Rightarrow> JNaN
            | _ \<Rightarrow> double_minus env a x))"

section \<open>The device registry\<close>

text \<open>
  \<open>const devices = new Map()\<close>: keys are the \<open>deviceId\<close> of the handshake query, a string
  or \<open>undefined\<close> (\<open>None\<close>). A JavaScript Map iterates in insertion order, \<open>set\<close> on a
  present key keeps its position, so the registry is an association list.
\<close>

record device =
  socketId :: string
  name :: string
  connectedAt :: int
  lastSeen :: "int option"

type_synonym key = "string option"
type_synonym registry = "(key \<times> device) list"

fun map_set :: "('k \<times> 'v) list \<Rightarrow> 'k \<Rightarrow> 'v \<Rightarrow> ('k \<times> 'v) list" where
  "map_set [] k v = [(k, v)]"
| "map_set ((k', v') # r) k v = (if k' = k then (k, v) # r else (k', v') # map_set r k v)"

definition map_delete :: "('k \<times> 'v) list \<Rightarrow> 'k \<Rightarrow> ('k \<times> 'v) list" where
  "map_delete r k = filter (\<lambda>e. fst e \<noteq> k) r"

text \<open>
  A value used as a Map key: only \<open>undefined\<close> and strings can equal a key of the
  registry; any other value is equal to none of them.
\<close>

fun key_of :: "jsval \<Rightarrow> key option" where
  "key_of JUndef = Some None"
| "key_of (JStr s) = Some (Some s)"
| "key_of v = None"

fun key_js :: "key \<Rightarrow> jsval" where
  "key_js None = JUndef"
| "key_js (Some s) = JStr s"

definition devices_get :: "registry \<Rightarrow> jsval \<Rightarrow> device option" where
  "devices_get r v = (case key_of v of None \<Rightarrow> None | Some k \<Rightarrow> map_of r k)"

definition devices_has :: "registry \<Rightarrow> jsval \<Rightarrow> bool" where
  "devices_has r v = (devices_get r v \<noteq> None)"

text \<open>The linear scan; \<open>null\<close> when no entry has the socket id.\<close>

fun getDeviceIdBySocketId :: "registry \<Rightarrow> string \<Rightarrow> jsval" where
  "getDeviceIdBySocketId [] s = JNull"
| "getDeviceIdBySocketId ((k, d) # r) s =
     (if socketId d = s then key_js k else getDeviceIdBySocketId r s)"

text \<open>\<open>Array.from(devices.entries())\<close>, the roster snapshot.\<close>

definition device_js :: "device \<Rightarrow> jsval" where
  "device_js d =
     JObj ([(''socketId'', JStr (socketId d)), (''name'', JStr (name d)),
            (''connectedAt'', JDate (connectedAt d))]
           @ (case lastSeen d of None \<Rightarrow> [] | Some t \<Rightarrow> [(''lastSeen'', JDate t)]))"

definition entries :: "registry \<Rightarrow> jsval" where
  "entries r = JArr (map (\<lambda>e. JArr [key_js (fst e), device_js (snd e)]) r)"

section \<open>Server state and the transport's send primitives\<close>

text \<open>
  The handshake query of a connection (\<open>socket.handshake.query\<close>): each parameter is a
  string or absent.
\<close>

record handshake =
  qtype :: "string option"
  qdeviceId :: "string option"
  qname :: "string option"

text \<open>
  The state: the registry and the live connections in accept order, each with the
  handshake its handlers closed over. An emission is (receiving socket id, event name,
  arguments).
\<close>

record server =
  devices :: registry
  sockets :: "(string \<times> handshake) list"

type_synonym emission = "string \<times> string \<times> jsval list"

definition init :: server where
  "init = \<lparr>devices = [], sockets = []\<rparr>"

definition socket_ids :: "server \<Rightarrow> string list" where
  "socket_ids st = map fst (sockets st)"

text \<open>\<open>socket.emit\<close>, \<open>socket.broadcast.emit\<close>, \<open>io.emit\<close> and \<open>io.to(room).emit\<close>;
  every socket is in the room named by its own id.\<close>

definition socket_emit :: "string \<Rightarrow> string \<Rightarrow> jsval list \<Rightarrow> emission list" where
  "socket_emit sid ev args = [(sid, ev, args)]"

definition broadcast_emit :: "server \<Rightarrow> string \<Rightarrow> string \<Rightarrow> jsval list \<Rightarrow> emission list" where
  "broadcast_emit st sid ev args =
     map (\<lambda>r. (r, ev, args)) (filter (\<lambda>r. r \<noteq> sid) (socket_ids st))"

definition io_emit :: "server \<Rightarrow> string \<Rightarrow> jsval list \<Rightarrow> emission list" where
  "io_emit st ev args = map (\<lambda>r. (r, ev, args)) (socket_ids st)"

definition io_to_emit :: "server \<Rightarrow> string \<Rightarrow> string \<Rightarrow> jsval list \<Rightarrow> emission list" where
  "io_to_emit st room ev args =
     map (\<lambda>r. (r, ev, args)) (filter (\<lambda>r. r = room) (socket_ids st))"

text \<open>
  \<open>sendToDevice = (targetId, event, data = null)\<close>: the default also replaces an
  \<open>undefined\<close> that the caller passes.
\<close>

definition sendToDevice :: "server \<Rightarrow> jsval \<Rightarrow> string \<Rightarrow> jsval \<Rightarrow> emission list" where
  "sendToDevice st targetId ev data0 =
     (let data = (if data0 = JUndef then JNull else data0) in
      case devices_get (devices st) targetId of
        None \<Rightarrow> []
      | Some device \<Rightarrow>
          if socketId device \<noteq> [] then io_to_emit st (socketId device) ev [data] else [])"

section \<open>Connection and disconnection\<close>

text \<open>
  The body of \<open>io.on('connection', ...)\<close> up to the registration of the event handlers.
  \<open>clk n\<close> is the value of the \<open>n\<close>-th reading of the clock inside the handler;
  \<open>display_name\<close> is \<open>query.name || 'Unknown Device'\<close>.
\<close>

definition display_name :: "handshake \<Rightarrow> string" where
  "display_name q =
     (case qname q of None \<Rightarrow> ''Unknown Device''
      | Some n \<Rightarrow> if n = [] then ''Unknown Device'' else n)"

definition connection :: "(nat \<Rightarrow> int) \<Rightarrow> server \<Rightarrow> string \<Rightarrow> handshake \<Rightarrow> server \<times> emission list" where
  "connection clk st sid q =
     (let st1 = st\<lparr>sockets := sockets st @ [(sid, q)]\<rparr> in
      if qtype q = Some ''device'' then
        let deviceId = qdeviceId q;
            devs = map_set (devices st) deviceId
                     \<lparr>socketId = sid, name = display_name q, connectedAt = clk 0,
                      lastSeen = None\<rparr>
        in (st1\<lparr>devices := devs\<rparr>,
            broadcast_emit st1 sid ''device_list_update'' [entries devs])
      else (st1, socket_emit sid ''device_list_update'' [entries (devices st)]))"

text \<open>
  The \<open>disconnect\<close> handler of a socket; it uses the \<open>type\<close> and \<open>deviceId\<close> captured at
  connection time. The socket has left the server when the handler runs.
\<close>

definition disconnect :: "server \<Rightarrow> string \<Rightarrow> server \<times> emission list" where
  "disconnect st sid =
     (case map_of (sockets st) sid of
        None \<Rightarrow> (st, [])
      | Some q \<Rightarrow>
          let st1 = st\<lparr>sockets := filter (\<lambda>c. fst c \<noteq> sid) (sockets st)\<rparr> in
          if qtype q = Some ''device'' then
            let devs = map_delete (devices st) (qdeviceId q)
            in (st1\<lparr>devices := devs\<rparr>,
                broadcast_emit st1 sid ''device_list_update'' [entries devs])
          else (st1, []))"

section \<open>The event handlers\<close>

text \<open>The inbound events for which the connection handler registers a listener.\<close>

datatype inbound =
    Audio_stream | Video_frame | Status_update
  | Get_status | Start_monitoring | Stop_monitoring
  | Request_camera_start | Camera_ready | Camera_status
  | Start_video | Stop_video | Switch_camera
  | Update_video_quality
  | Toggle_flash | Toggle_front_flash | Toggle_back_flash
  | Hide_app | Show_app
  | Brightness_up | Brightness_down
  | START_MANUAL_RECORDING | STOP_MANUAL_RECORDING
  | Update_config | Get_config | Get_storage_stats
  | Hide_app_icon | Show_app_icon | Get_permissions
  | Permission_report | Current_config | Storage_stats
  | Heartbeat | Log
  | Webrtc_offer | Webrtc_answer | Webrtc_ice_candidate

text \<open>
  \<open>on env clk st sid ev data\<close> runs the listener of \<open>ev\<close> on socket \<open>sid\<close> with first
  argument \<open>data\<close> (\<open>undefined\<close> when the client sent none): the new state and the
  emissions, or the exception the listener throws. \<open>sendToDevice(id, ev)\<close> sends the
  default \<open>data = null\<close>; \<open>socket.broadcast.emit(ev)\<close> sends no argument. Of the
  \<open>console.log\<close> calls only what can throw is kept: the property reads in their
  arguments (\<open>data.status\<close>, \<open>data.quality\<close>) and the string conversion of the values
  their template literals interpolate. Every listener that throws does so before it
  emits or writes anything.
\<close>

fun on :: "js_env \<Rightarrow> (nat \<Rightarrow> int) \<Rightarrow> server \<Rightarrow> string \<Rightarrow> inbound \<Rightarrow> jsval
            \<Rightarrow> js_error + server \<times> emission list" where
  "on env clk st sid Audio_stream data =
     (let deviceId = getDeviceIdBySocketId (devices st) sid in
      Inr (st, if truthy deviceId
               then io_emit st ''audio_data'' [JObj [(''deviceId'', deviceId), (''data'', data)]]
               else []))"
| "on env clk st sid Video_frame data =
     (let deviceId = getDeviceIdBySocketId (devices st) sid in
      Inr (st, if truthy deviceId
               then io_emit st ''video_data'' [JObj [(''deviceId'', deviceId), (''data'', data)]]
               else []))"
| "on env clk st sid Status_update status =
     bind_err (js_to_string env status) (\<lambda>s.
       Inr (st, io_emit st ''server_log'' [JStr (''App Status: '' @ s)]))"
| "on env clk st sid Get_status targetId =
     Inr (st, if truthy targetId then sendToDevice st targetId ''GET_STATUS'' JNull
              else broadcast_emit st sid ''GET_STATUS'' [])"
| "on env clk st sid Start_monitoring targetId =
     Inr (st, if truthy targetId then sendToDevice st targetId ''START_AUDIO'' JNull
              else broadcast_emit st sid ''START_AUDIO'' [])"
| "on env clk st sid Stop_monitoring targetId =
     Inr (st, if truthy targetId then sendToDevice st targetId ''STOP_AUDIO'' JNull
              else broadcast_emit st sid ''STOP_AUDIO'' [])"
| "on env clk st sid Request_camera_start targetId =
     bind_err (js_to_string env targetId) (\<lambda>logged.
       Inr (st, if truthy targetId then sendToDevice st targetId ''REQUEST_CAMERA_START'' JNull
                else []))"
| "on env clk st sid Camera_ready deviceId =
     bind_err (js_to_string env deviceId) (\<lambda>logged.
       Inr (st, broadcast_emit st sid ''camera_ready'' [deviceId]))"
| "on env clk st sid Camera_status data =
     bind_err (get_prop data ''status'') (\<lambda>status.
     bind_err (js_to_string env status) (\<lambda>logged.
       Inr (st, broadcast_emit st sid ''camera_status'' [data])))"
| "on env clk st sid Start_video targetId =
     Inr (st, if truthy targetId then sendToDevice st targetId ''START_CAM'' JNull
              else broadcast_emit st sid ''START_CAM'' [])"
| "on env clk st sid Stop_video targetId =
     Inr (st, if truthy targetId then sendToDevice st targetId ''STOP_CAM'' JNull
              else broadcast_emit st sid ''STOP_CAM'' [])"
| "on env clk st sid Switch_camera targetId =
     Inr (st, if truthy targetId then sendToDevice st targetId ''SWITCH_CAM'' JNull
              else broadcast_emit st sid ''SWITCH_CAM'' [])"
| "on env clk st sid Update_video_quality data =
     bind_err (get_prop data ''quality'') (\<lambda>quality.
     bind_err (js_to_string env quality) (\<lambda>logged.
     bind_err (get_prop data ''targetId'') (\<lambda>targetId.
       Inr (st, if truthy targetId then sendToDevice st targetId ''UPDATE_VIDEO_QUALITY'' data
                else []))))"
| "on env clk st sid Toggle_flash targetId =
     Inr (st, if truthy targetId then sendToDevice st targetId ''TOGGLE_FLASH'' JNull
              else broadcast_emit st sid ''TOGGLE_FLASH'' [])"
| "on env clk st sid Toggle_front_flash targetId =
     Inr (st, if truthy targetId then sendToDevice st targetId ''TOGGLE_FRONT_FLASH'' JNull
              else [])"
| "on env clk st sid Toggle_back_flash targetId =
     Inr (st, if truthy targetId then sendToDevice st targetId ''TOGGLE_BACK_FLASH'' JNull
              else [])"
| "on env clk st sid Hide_app targetId =
     bind_err (js_to_string env targetId) (\<lambda>logged.
       Inr (st, if truthy targetId then sendToDevice st targetId ''HIDE_APP'' JNull else []))"
| "on env clk st sid Show_app targetId =
     bind_err (js_to_string env targetId) (\<lambda>logged.
       Inr (st, if truthy targetId then sendToDevice st targetId ''SHOW_APP'' JNull else []))"
| "on env clk st sid Brightness_up targetId =
     Inr (st, if truthy targetId then sendToDevice st targetId ''BRIGHTNESS_UP'' JNull
              else broadcast_emit st sid ''BRIGHTNESS_UP'' [])"
| "on env clk st sid Brightness_down targetId =
     Inr (st, if truthy targetId then sendToDevice st targetId ''BRIGHTNESS_DOWN'' JNull
              else broadcast_emit st sid ''BRIGHTNESS_DOWN'' [])"
| "on env clk st sid START_MANUAL_RECORDING targetId =
     Inr (st, if truthy targetId then sendToDevice st targetId ''START_MANUAL_RECORDING'' JNull
              else [])"
| "on env clk st sid STOP_MANUAL_RECORDING targetId =
     Inr (st, if truthy targetId then sendToDevice st targetId ''STOP_MANUAL_RECORDING'' JNull
              else [])"
| "on env clk st sid Update_config data =
     bind_err (get_prop data ''targetId'') (\<lambda>targetId.
       if truthy targetId
       then bind_err (get_prop data ''config'') (\<lambda>config.
              Inr (st, sendToDevice st targetId ''UPDATE_CONFIG'' config))
       else Inr (st, broadcast_emit st sid ''UPDATE_CONFIG'' [data]))"
| "on env clk st sid Get_config targetId =
     Inr (st, if truthy targetId then sendToDevice st targetId ''GET_CONFIG'' JNull else [])"
| "on env clk st sid Get_storage_stats targetId =
     Inr (st, if truthy targetId then sendToDevice st targetId ''GET_STORAGE_STATS'' JNull
              else [])"
| "on env clk st sid Hide_app_icon targetId =
     Inr (st, if truthy targetId then sendToDevice st targetId ''HIDE_APP_ICON'' JNull else [])"
| "on env clk st sid Show_app_icon targetId =
     Inr (st, if truthy targetId then sendToDevice st targetId ''SHOW_APP_ICON'' JNull else [])"
| "on env clk st sid Get_permissions targetId =
     Inr (st, if truthy targetId then sendToDevice st targetId ''GET_PERMISSIONS'' JNull
              else [])"
| "on env clk st sid Permission_report data =
     (let deviceId = getDeviceIdBySocketId (devices st) sid in
      Inr (st, if truthy deviceId
               then io_emit st ''permission_report''
                      [JObj [(''deviceId'', deviceId), (''report'', data)]]
               else []))"
| "on env clk st sid Current_config config =
     Inr (st, broadcast_emit st sid ''current_config'' [config])"
| "on env clk st sid Storage_stats stats =
     Inr (st, broadcast_emit st sid ''storage_stats'' [stats])"
| "on env clk st sid Heartbeat timestamp =
     bind_err (js_minus env (clk 1) timestamp) (\<lambda>latency.
      let pong = socket_emit sid ''pong_response''
                   [JObj [(''serverTime'', JNum (clk 0)), (''clientTime'', timestamp),
                          (''latency'', latency)]];
          deviceId = getDeviceIdBySocketId (devices st) sid
      in if truthy deviceId \<and> devices_has (devices st) deviceId then
           (case (key_of deviceId, devices_get (devices st) deviceId) of
              (Some k, Some device) \<Rightarrow>
                Inr (st\<lparr>devices := map_set (devices st) k (device\<lparr>lastSeen := Some (clk 2)\<rparr>)\<rparr>,
                     pong)
            | _ \<Rightarrow> Inr (st, pong))
         else Inr (st, pong))"
| "on env clk st sid Log message =
     (let deviceId = getDeviceIdBySocketId (devices st) sid in
      bind_err (js_to_string env (if truthy deviceId then deviceId else JStr ''unknown''))
        (\<lambda>who.
      bind_err (js_to_string env message) (\<lambda>what.
        Inr (st, io_emit st ''server_log'' [JStr (''['' @ who @ ''] '' @ what)]))))"
| "on env clk st sid Webrtc_offer data =
     bind_err (case data of
                 JStr s \<Rightarrow> (case json_parse env s of None \<Rightarrow> Inl SyntaxError
                            | Some p \<Rightarrow> Inr p)
               | _ \<Rightarrow> Inr data) (\<lambda>payload.
     bind_err (get_prop payload ''targetId'') (\<lambda>targetId.
       if truthy targetId
       then bind_err (get_prop payload ''offer'') (\<lambda>offer.
              Inr (st, sendToDevice st targetId ''webrtc_offer''
                         (json_stringify env (if truthy offer then offer else payload))))
       else Inr (st, broadcast_emit st sid ''webrtc_offer'' [data])))"
| "on env clk st sid Webrtc_answer data =
     Inr (st, broadcast_emit st sid ''webrtc_answer'' [data])"
| "on env clk st sid Webrtc_ice_candidate data =
     (let payload = (case data of
                       JStr s \<Rightarrow> (case json_parse env s of None \<Rightarrow> data | Some p \<Rightarrow> p)
                     | _ \<Rightarrow> data)
      in bind_err (get_prop payload ''targetId'') (\<lambda>targetId.
           if truthy targetId
           then bind_err (get_prop payload ''candidate'') (\<lambda>candidate.
                  Inr (st, sendToDevice st targetId ''webrtc_ice_candidate''
                             (case candidate of JStr c \<Rightarrow> JStr c
                              | _ \<Rightarrow> json_stringify env candidate)))
           else Inr (st, broadcast_emit st sid ''webrtc_ice_candidate'' [data])))"

section \<open>Runs of the server\<close>

text \<open>
  What the transport delivers: a connection (with a fresh, non-empty socket id), the
  closing of a live connection, or a message from a live connection. The transport never
  delivers anything else, so \<open>step\<close> leaves the state alone there.
\<close>

datatype event =
    Connection string handshake
  | Disconnect string
  | Message string inbound jsval

fun step :: "js_env \<Rightarrow> (nat \<Rightarrow> int) \<Rightarrow> server \<Rightarrow> event \<Rightarrow> js_error + server \<times> emission list" where
  "step env clk st (Connection sid q) =
     (if sid = [] \<or> sid \<in> set (socket_ids st) then Inr (st, [])
      else Inr (connection clk st sid q))"
| "step env clk st (Disconnect sid) = Inr (disconnect st sid)"
| "step env clk st (Message sid ev data) =
     (if sid \<in> set (socket_ids st) then on env clk st sid ev data else Inr (st, []))"

text \<open>
  The states a run goes through, the first one included. An exception thrown by a listener
  is not caught anywhere in the server, so the run ends there.
\<close>

fun run :: "js_env \<Rightarrow> server \<Rightarrow> ((nat \<Rightarrow> int) \<times> event) list \<Rightarrow> server list" where
  "run env st [] = [st]"
| "run env st (ce # es) =
     st # (case step env (fst ce) st (snd ce) of
             Inl err \<Rightarrow> []
           | Inr r \<Rightarrow> run env (fst r) es)"

text \<open>
  The invariant of the reachable states: one entry per key, one connection per socket id,
  no empty socket id, and every entry refers to a live connection that declared itself a
  device under the entry's key.
\<close>

definition entry_live :: "server \<Rightarrow> key \<times> device \<Rightarrow> bool" where
  "entry_live st e =
     (case map_of (sockets st) (socketId (snd e)) of
        None \<Rightarrow> False
      | Some q \<Rightarrow> qtype q = Some ''device'' \<and> qdeviceId q = fst e)"

definition wf :: "server \<Rightarrow> bool" where
  "wf st \<longleftrightarrow>
     distinct (map fst (devices st)) \<and> distinct (socket_ids st) \<and> [] \<notin> set (socket_ids st)
     \<and> list_all (entry_live st) (devices st)"

text \<open>A clock that reads \<open>t\<close> every time, and a runtime for the examples: its
  \<open>JSON.parse\<close> accepts one object literal and rejects every other string, and its
  conversions of objects throw, as the runtime's do for \<open>{"toString": 1}\<close>, the one
  object the examples convert.\<close>

definition clock_at :: "int \<Rightarrow> nat \<Rightarrow> int" where
  "clock_at t n = t"

definition example_env :: js_env where
  "example_env =
     \<lparr>json_parse = (\<lambda>s. if s = ''{\"targetId\":\"D9\"}''
                         then Some (JObj [(''targetId'', JStr ''D9'')]) else None),
      json_stringify = (\<lambda>v. JStr ''<json>''),
      number_to_string = (\<lambda>v. ''<number>''),
      object_to_string = (\<lambda>v. None),
      string_to_number = (\<lambda>s. JNaN),
      object_to_number = (\<lambda>v. None),
      double_minus = (\<lambda>a v. JNaN)\<rparr>"

definition device_query :: "string option \<Rightarrow> handshake" where
  "device_query d = \<lparr>qtype = Some ''device'', qdeviceId = d, qname = None\<rparr>"

definition controller_query :: handshake where
  "controller_query = \<lparr>qtype = None, qdeviceId = None, qname = None\<rparr>"

text \<open>
  The command listeners that take the target id as their argument, with the event each
  one sends: those that broadcast to the other connections when the argument is falsy,
  and those that send nothing then.
\<close>

definition fallback_commands :: "(inbound \<times> string) list" where
  "fallback_commands =
     [(Get_status, ''GET_STATUS''), (Start_monitoring, ''START_AUDIO''),
      (Stop_monitoring, ''STOP_AUDIO''), (Start_video, ''START_CAM''),
      (Stop_video, ''STOP_CAM''), (Switch_camera, ''SWITCH_CAM''),
      (Toggle_flash, ''TOGGLE_FLASH''), (Brightness_up, ''BRIGHTNESS_UP''),
      (Brightness_down, ''BRIGHTNESS_DOWN'')]"

definition targeted_only_commands :: "(inbound \<times> string) list" where
  "targeted_only_commands =
     [(Request_camera_start, ''REQUEST_CAMERA_START''),
      (Toggle_front_flash, ''TOGGLE_FRONT_FLASH''), (Toggle_back_flash, ''TOGGLE_BACK_FLASH''),
      (Hide_app, ''HIDE_APP''), (Show_app, ''SHOW_APP''),
      (START_MANUAL_RECORDING, ''START_MANUAL_RECORDING''),
      (STOP_MANUAL_RECORDING, ''STOP_MANUAL_RECORDING''),
      (Get_config, ''GET_CONFIG''), (Get_storage_stats, ''GET_STORAGE_STATS''),
      (Hide_app_icon, ''HIDE_APP_ICON''), (Show_app_icon, ''SHOW_APP_ICON''),
      (Get_permissions, ''GET_PERMISSIONS'')]"

text \<open>What one connection receives out of a list of emissions.\<close>

definition delivered_to :: "string \<Rightarrow> emission list \<Rightarrow> emission list" where
  "delivered_to c out = filter (\<lambda>e. fst e = c) out"

text \<open>
  An example state: device \<open>D1\<close> on socket \<open>S1\<close>, a second device without a
  \<open>deviceId\<close> on socket \<open>S2\<close>, and a dashboard on socket \<open>A1\<close>.
\<close>

definition example_state :: server where
  "example_state =
     \<lparr>devices =
        [(Some ''D1'', \<lparr>socketId = ''S1'', name = ''Unknown Device'', connectedAt = 1,
                        lastSeen = None\<rparr>),
         (None, \<lparr>socketId = ''S2'', name = ''Unknown Device'', connectedAt = 2,
                 lastSeen = None\<rparr>)],
      sockets =
        [(''S1'', device_query (Some ''D1'')), (''S2'', device_query None),
         (''A1'', controller_query)]\<rparr>"

text \<open>
  A reconnection: device \<open>D\<close> connects on socket \<open>C1\<close>, connects again on socket
  \<open>C2\<close>, and then the first connection closes.
\<close>

definition reconnect_scenario :: "((nat \<Rightarrow> int) \<times> event) list" where
  "reconnect_scenario =
     [(clock_at 1, Connection ''C1'' (device_query (Some ''D''))),
      (clock_at 2, Connection ''C2'' (device_query (Some ''D''))),
      (clock_at 3, Disconnect ''C1'')]"

text \<open>The registry as pairs of device id and socket id.\<close>

definition bindings :: "server \<Rightarrow> (key \<times> string) list" where
  "bindings st = map (\<lambda>e. (fst e, socketId (snd e))) (devices st)"

text \<open>The events that register a device, remove one, or refresh its \<open>lastSeen\<close>: the
  connection of a device, the closing of a device's connection, and a \<open>heartbeat\<close>.\<close>

definition registry_event :: "server \<Rightarrow> event \<Rightarrow> bool" where
  "registry_event st e =
     (case e of
        Connection sid q \<Rightarrow> qtype q = Some ''device''
      | Disconnect sid \<Rightarrow>
          (case map_of (sockets st) sid of None \<Rightarrow> False
           | Some q \<Rightarrow> qtype q = Some ''device'')
      | Message sid ev data \<Rightarrow> ev = Heartbeat)"

section \<open>Properties of the registry operations\<close>

lemma bind_err_Inr_iff: "bind_err m f = Inr r \<longleftrightarrow> (\<exists>x. m = Inr x \<and> f x = Inr r)"
  by (cases m) auto

lemma map_of_map_set: "map_of (map_set r k v) = (map_of r)(k \<mapsto> v)"
  by (induction r) (auto simp: fun_eq_iff)

lemma keys_map_set:
  "map fst (map_set r k v) = (if k \<in> set (map fst r) then map fst r else map fst r @ [k])"
  by (induction r) force+

lemma distinct_map_set: "distinct (map fst r) \<Longrightarrow> distinct (map fst (map_set r k v))"
  by (simp add: keys_map_set)

lemma set_map_set: "set (map_set r k v) \<subseteq> insert (k, v) (set r)"
  by (induction r) (auto split: if_splits)

lemma length_map_set:
  "length (map_set r k v) = (if k \<in> set (map fst r) then length r else Suc (length r))"
  by (induction r) force+

lemma map_of_map_delete: "map_of (map_delete r k) = (map_of r)(k := None)"
  by (induction r) (auto simp: map_delete_def fun_eq_iff)

lemma distinct_map_delete: "distinct (map fst r) \<Longrightarrow> distinct (map fst (map_delete r k))"
  by (simp add: map_delete_def distinct_map_filter)

lemma map_of_drop_socket:
  "map_of (filter (\<lambda>c. fst c \<noteq> sid) xs) x = (if x = sid then None else map_of xs x)"
  by (induction xs) auto

lemma map_of_fresh: "sid \<notin> set (map fst xs) \<Longrightarrow> map_of xs sid = None"
  by (simp add: map_of_eq_None_iff)

section \<open>The invariant holds in every reachable state\<close>

lemma entry_live_connect:
  assumes "entry_live st e"
  shows "entry_live (st\<lparr>sockets := sockets st @ [(sid, q)], devices := devs\<rparr>) e"
  using assms by (auto simp: entry_live_def map_add_def split: option.splits)

lemma entry_live_accept:
  assumes "entry_live st e"
  shows "entry_live (st\<lparr>sockets := sockets st @ [(sid, q)]\<rparr>) e"
  using assms by (auto simp: entry_live_def map_add_def split: option.splits)

lemma wf_connection:
  assumes "wf st" "sid \<noteq> []" "sid \<notin> set (socket_ids st)"
  shows "wf (fst (connection clk st sid q))"
proof (cases "qtype q = Some ''device''")
  case True
  let ?d = "\<lparr>socketId = sid, name = display_name q, connectedAt = clk 0, lastSeen = None\<rparr>"
  let ?devs = "map_set (devices st) (qdeviceId q) ?d"
  let ?st' = "st\<lparr>sockets := sockets st @ [(sid, q)], devices := ?devs\<rparr>"
  have st': "fst (connection clk st sid q) = ?st'"
    using True by (simp add: connection_def Let_def)
  have new: "entry_live ?st' (qdeviceId q, ?d)"
    using assms(3) True by (simp add: entry_live_def socket_ids_def map_add_def map_of_fresh)
  have old: "entry_live ?st' e" if "e \<in> set (devices st)" for e
    using that assms(1) by (auto simp: wf_def list_all_iff intro: entry_live_connect)
  have "entry_live ?st' e" if "e \<in> set ?devs" for e
  proof -
    from that set_map_set[of "devices st" "qdeviceId q" ?d]
    have "e = (qdeviceId q, ?d) \<or> e \<in> set (devices st)" by blast
    then show ?thesis using new old by blast
  qed
  then show ?thesis
    using assms by (simp add: st' wf_def list_all_iff distinct_map_set socket_ids_def)
next
  case False
  have st': "fst (connection clk st sid q) = st\<lparr>sockets := sockets st @ [(sid, q)]\<rparr>"
    using False by (simp add: connection_def Let_def)
  show ?thesis
    using assms by (auto simp: st' wf_def list_all_iff socket_ids_def intro: entry_live_accept)
qed

lemma wf_disconnect:
  assumes "wf st"
  shows "wf (fst (disconnect st sid))"
proof (cases "map_of (sockets st) sid")
  case None
  then show ?thesis using assms by (simp add: disconnect_def)
next
  case (Some q)
  let ?socks = "filter (\<lambda>c. fst c \<noteq> sid) (sockets st)"
  have ids: "distinct (map fst ?socks)" "[] \<notin> set (map fst ?socks)"
    using assms by (auto simp: wf_def socket_ids_def distinct_map_filter)
  have live: "entry_live st e" if "e \<in> set (devices st)" for e
    using that assms by (simp add: wf_def list_all_iff)
  show ?thesis
  proof (cases "qtype q = Some ''device''")
    case True
    let ?devs = "map_delete (devices st) (qdeviceId q)"
    have st': "fst (disconnect st sid) = st\<lparr>sockets := ?socks, devices := ?devs\<rparr>"
      using Some True by (simp add: disconnect_def Let_def)
    have "entry_live (st\<lparr>sockets := ?socks, devices := ?devs\<rparr>) e" if "e \<in> set ?devs" for e
    proof -
      from that have e: "e \<in> set (devices st)" "fst e \<noteq> qdeviceId q"
        by (auto simp: map_delete_def)
      from live[OF e(1)] e(2) Some show ?thesis
        by (auto simp: entry_live_def map_of_drop_socket split: option.splits)
    qed
    then show ?thesis
      using assms ids by (simp add: st' wf_def list_all_iff distinct_map_delete socket_ids_def)
  next
    case False
    have st': "fst (disconnect st sid) = st\<lparr>sockets := ?socks\<rparr>"
      using Some False by (simp add: disconnect_def Let_def)
    have "entry_live (st\<lparr>sockets := ?socks\<rparr>) e" if "e \<in> set (devices st)" for e
      using live[OF that] Some False
      by (auto simp: entry_live_def map_of_drop_socket split: option.splits)
    then show ?thesis
      using assms ids by (simp add: st' wf_def list_all_iff socket_ids_def)
  qed
qed

lemma on_frame:
  "ev \<noteq> Heartbeat \<Longrightarrow> on env clk st sid ev data = Inr r \<Longrightarrow> fst r = st"
  by (cases ev) (auto simp: bind_err_Inr_iff Let_def split: if_splits)

lemma heartbeat_state:
  "on env clk st sid Heartbeat ts = Inr r \<Longrightarrow>
     fst r = st \<or> (\<exists>k d. map_of (devices st) k = Some d \<and>
        fst r = st\<lparr>devices := map_set (devices st) k (d\<lparr>lastSeen := Some (clk 2)\<rparr>)\<rparr>)"
proof -
  assume a: "on env clk st sid Heartbeat ts = Inr r"
  let ?id = "getDeviceIdBySocketId (devices st) sid"
  show ?thesis
  proof (cases "key_of ?id")
    case None
    then show ?thesis using a by (auto simp: bind_err_Inr_iff Let_def split: if_splits)
  next
    case k: (Some k)
    show ?thesis
    proof (cases "map_of (devices st) k")
      case None
      then show ?thesis
        using a k by (auto simp: bind_err_Inr_iff Let_def devices_get_def split: if_splits)
    next
      case (Some d)
      then have "fst r = st \<or>
          fst r = st\<lparr>devices := map_set (devices st) k (d\<lparr>lastSeen := Some (clk 2)\<rparr>)\<rparr>"
        using a k by (auto simp: bind_err_Inr_iff Let_def devices_get_def split: if_splits)
      then show ?thesis using Some by blast
    qed
  qed
qed

lemma wf_touch:
  assumes "wf st" "map_of (devices st) k = Some d"
  shows "wf (st\<lparr>devices := map_set (devices st) k (d\<lparr>lastSeen := t\<rparr>)\<rparr>)"
proof -
  let ?devs = "map_set (devices st) k (d\<lparr>lastSeen := t\<rparr>)"
  have live: "entry_live st e" if "e \<in> set (devices st)" for e
    using that assms by (simp add: wf_def list_all_iff)
  have "(k, d) \<in> set (devices st)" using assms(2) by (rule map_of_SomeD)
  then have "entry_live st (k, d\<lparr>lastSeen := t\<rparr>)"
    using live[of "(k, d)"] by (simp add: entry_live_def split: option.splits)
  then have "entry_live st e" if "e \<in> set ?devs" for e
    using that set_map_set[of "devices st" k "d\<lparr>lastSeen := t\<rparr>"] live by blast
  then have "entry_live (st\<lparr>devices := ?devs\<rparr>) e" if "e \<in> set ?devs" for e
    using that by (simp add: entry_live_def)
  then show ?thesis
    using assms(1) by (simp add: wf_def list_all_iff distinct_map_set socket_ids_def)
qed

lemma wf_on:
  assumes "wf st" "on env clk st sid ev data = Inr r"
  shows "wf (fst r)"
proof (cases "ev = Heartbeat")
  case True
  then show ?thesis
    using heartbeat_state[of env clk st sid data r] assms wf_touch by auto
next
  case False
  then show ?thesis using on_frame[OF False assms(2)] assms(1) by simp
qed

lemma wf_step:
  assumes "wf st" "step env clk st e = Inr r"
  shows "wf (fst r)"
proof (cases e)
  case (Connection sid q)
  then show ?thesis using assms wf_connection by (auto split: if_splits)
next
  case (Disconnect sid)
  then show ?thesis using assms wf_disconnect by auto
next
  case (Message sid ev data)
  then show ?thesis using assms wf_on by (auto split: if_splits)
qed

lemma wf_init: "wf init"
  by (simp add: wf_def init_def socket_ids_def)

lemma wf_run: "wf st \<Longrightarrow> s \<in> set (run env st es) \<Longrightarrow> wf s"
proof (induction es arbitrary: st)
  case Nil
  then show ?case by simp
next
  case (Cons ce es)
  show ?case
  proof (cases "s = st")
    case True
    then show ?thesis using Cons.prems by simp
  next
    case False
    then obtain r where r: "step env (fst ce) st (snd ce) = Inr r" "s \<in> set (run env (fst r) es)"
      using Cons.prems(2) by (cases "step env (fst ce) st (snd ce)") auto
    from wf_step[OF Cons.prems(1) r(1)] r(2) show ?thesis by (rule Cons.IH)
  qed
qed

lemma wf_example_state: "wf example_state"
  by (simp add: wf_def example_state_def socket_ids_def entry_live_def device_query_def
      controller_query_def)


section \<open>Sending to a device\<close>

lemma sendToDevice_unknown:
  "devices_get (devices st) t = None \<Longrightarrow> sendToDevice st t nm payload = []"
  by (simp add: sendToDevice_def Let_def)

lemma room_of_live_socket:
  "distinct xs \<Longrightarrow> x \<in> set xs \<Longrightarrow> filter (\<lambda>r. r = x) xs = [x]"
  by (induction xs) (auto simp: filter_empty_conv)

lemma devices_get_in_set: "devices_get r t = Some d \<Longrightarrow> \<exists>k. (k, d) \<in> set r"
  by (auto simp: devices_get_def split: option.splits dest: map_of_SomeD)

lemma entry_socket_live:
  assumes "wf st" "(k, d) \<in> set (devices st)"
  shows "socketId d \<in> set (socket_ids st)" "socketId d \<noteq> []"
proof -
  from assms have "entry_live st (k, d)" by (simp add: wf_def list_all_iff)
  then obtain q where "map_of (sockets st) (socketId d) = Some q"
    by (auto simp: entry_live_def split: option.splits)
  then have "(socketId d, q) \<in> set (sockets st)" by (rule map_of_SomeD)
  then show "socketId d \<in> set (socket_ids st)" by (force simp: socket_ids_def)
  with assms(1) show "socketId d \<noteq> []" by (auto simp: wf_def)
qed

lemma sendToDevice_known:
  assumes "wf st" "devices_get (devices st) t = Some d"
  shows "sendToDevice st t nm payload
           = [(socketId d, nm, [if payload = JUndef then JNull else payload])]"
proof -
  from devices_get_in_set[OF assms(2)] obtain k where "(k, d) \<in> set (devices st)" ..
  from entry_socket_live[OF assms(1) this] assms(1)
  have "filter (\<lambda>r. r = socketId d) (socket_ids st) = [socketId d]" "socketId d \<noteq> []"
    by (auto simp: wf_def intro: room_of_live_socket)
  then show ?thesis using assms(2) by (simp add: sendToDevice_def io_to_emit_def Let_def)
qed

section \<open>Connection, disconnection and the roster\<close>

lemma connection_device:
  "qtype q = Some ''device'' \<Longrightarrow>
   fst (connection clk st sid q) =
     st\<lparr>sockets := sockets st @ [(sid, q)],
        devices := map_set (devices st) (qdeviceId q)
          \<lparr>socketId = sid, name = display_name q, connectedAt = clk 0, lastSeen = None\<rparr>\<rparr>"
  by (simp add: connection_def Let_def)

lemma disconnect_device:
  "map_of (sockets st) sid = Some q \<Longrightarrow> qtype q = Some ''device'' \<Longrightarrow>
   devices (fst (disconnect st sid)) = map_delete (devices st) (qdeviceId q)"
  by (simp add: disconnect_def Let_def)

lemma key_in_map_set: "(k, v) \<in> set (map_set r k v)"
  by (induction r) auto

lemma one_entry_after_set:
  "distinct (map fst r) \<Longrightarrow> filter (\<lambda>e. fst e = k) (map_set r k v) = [(k, v)]"
proof (induction r)
  case Nil
  then show ?case by simp
next
  case (Cons e r)
  show ?case
  proof (cases "fst e = k")
    case True
    then have "k \<notin> fst ` set r" using Cons.prems by auto
    then have "filter (\<lambda>e. fst e = k) r = []" by (auto simp: filter_empty_conv)
    then show ?thesis using True by (cases e) simp
  next
    case False
    then show ?thesis using Cons by (cases e) simp
  qed
qed

lemma delivered_once:
  "distinct xs \<Longrightarrow> c \<in> set xs
   \<Longrightarrow> delivered_to c (map (\<lambda>r. (r, ev, args)) xs) = [(c, ev, args)]"
  by (induction xs) (auto simp: delivered_to_def filter_empty_conv)

lemma broadcast_after_accept:
  assumes "sid \<notin> set (socket_ids st)"
  shows "broadcast_emit (st\<lparr>sockets := sockets st @ [(sid, q)]\<rparr>) sid ev args
           = map (\<lambda>r. (r, ev, args)) (socket_ids st)"
proof -
  have "filter (\<lambda>r. r \<noteq> sid) (socket_ids st) = socket_ids st"
    using assms by (auto simp: filter_id_conv)
  moreover have "socket_ids (st\<lparr>sockets := sockets st @ [(sid, q)]\<rparr>) = socket_ids st @ [sid]"
    by (simp add: socket_ids_def)
  ultimately show ?thesis by (simp add: broadcast_emit_def)
qed

lemma broadcast_after_close:
  "broadcast_emit (st\<lparr>sockets := filter (\<lambda>c. fst c \<noteq> sid) (sockets st)\<rparr>) sid ev args
     = map (\<lambda>r. (r, ev, args)) (filter (\<lambda>r. r \<noteq> sid) (socket_ids st))"
proof -
  have "socket_ids (st\<lparr>sockets := filter (\<lambda>c. fst c \<noteq> sid) (sockets st)\<rparr>)
          = filter (\<lambda>r. r \<noteq> sid) (socket_ids st)"
    by (simp add: socket_ids_def filter_map comp_def)
  then show ?thesis by (simp add: broadcast_emit_def)
qed

lemma connection_device_out:
  "qtype q = Some ''device'' \<Longrightarrow> sid \<notin> set (socket_ids st) \<Longrightarrow>
   snd (connection clk st sid q)
     = map (\<lambda>r. (r, ''device_list_update'', [entries (devices (fst (connection clk st sid q)))]))
           (socket_ids st)"
  by (simp add: connection_def Let_def broadcast_after_accept)

lemma disconnect_device_out:
  "map_of (sockets st) sid = Some q \<Longrightarrow> qtype q = Some ''device'' \<Longrightarrow>
   snd (disconnect st sid)
     = map (\<lambda>r. (r, ''device_list_update'', [entries (devices (fst (disconnect st sid)))]))
           (filter (\<lambda>r. r \<noteq> sid) (socket_ids st))"
  by (simp add: disconnect_def Let_def broadcast_after_close)

lemma roster_on_register:
  assumes "wf st" "qtype q = Some ''device''" "sid \<notin> set (socket_ids st)"
  shows "snd (connection clk st sid q)
           = map (\<lambda>r. (r, ''device_list_update'',
                        [entries (devices (fst (connection clk st sid q)))]))
                 (socket_ids st)"
    and "(qdeviceId q, \<lparr>socketId = sid, name = display_name q, connectedAt = clk 0,
                        lastSeen = None\<rparr>) \<in> set (devices (fst (connection clk st sid q)))"
    and "map_of (sockets st) c = Some qc \<Longrightarrow> qtype qc \<noteq> Some ''device'' \<Longrightarrow>
         delivered_to c (snd (connection clk st sid q))
           = [(c, ''device_list_update'', [entries (devices (fst (connection clk st sid q)))])]"
proof -
  show out: "snd (connection clk st sid q)
           = map (\<lambda>r. (r, ''device_list_update'',
                        [entries (devices (fst (connection clk st sid q)))]))
                 (socket_ids st)"
    using assms(2,3) by (rule connection_device_out)
  show "(qdeviceId q, \<lparr>socketId = sid, name = display_name q, connectedAt = clk 0,
                        lastSeen = None\<rparr>) \<in> set (devices (fst (connection clk st sid q)))"
    using assms(2) by (simp add: connection_device key_in_map_set)
  assume "map_of (sockets st) c = Some qc"
  then have "c \<in> set (socket_ids st)"
    by (auto simp: socket_ids_def dest: map_of_SomeD intro: rev_image_eqI)
  moreover have "distinct (socket_ids st)" using assms(1) by (simp add: wf_def)
  ultimately show "delivered_to c (snd (connection clk st sid q))
           = [(c, ''device_list_update'', [entries (devices (fst (connection clk st sid q)))])]"
    by (simp only: out delivered_once)
qed

lemma roster_on_unregister:
  assumes "wf st" "map_of (sockets st) sid = Some q" "qtype q = Some ''device''"
  shows "snd (disconnect st sid)
           = map (\<lambda>r. (r, ''device_list_update'', [entries (devices (fst (disconnect st sid)))]))
                 (filter (\<lambda>r. r \<noteq> sid) (socket_ids st))"
    and "qdeviceId q \<notin> set (map fst (devices (fst (disconnect st sid))))"
    and "map_of (sockets st) c = Some qc \<Longrightarrow> qtype qc \<noteq> Some ''device'' \<Longrightarrow>
         delivered_to c (snd (disconnect st sid))
           = [(c, ''device_list_update'', [entries (devices (fst (disconnect st sid)))])]"
proof -
  show out: "snd (disconnect st sid)
           = map (\<lambda>r. (r, ''device_list_update'', [entries (devices (fst (disconnect st sid)))]))
                 (filter (\<lambda>r. r \<noteq> sid) (socket_ids st))"
    using assms(2,3) by (rule disconnect_device_out)
  show "qdeviceId q \<notin> set (map fst (devices (fst (disconnect st sid))))"
    using assms(2,3) by (auto simp: disconnect_device map_delete_def)
  assume c: "map_of (sockets st) c = Some qc" "qtype qc \<noteq> Some ''device''"
  then have "c \<in> set (socket_ids st)"
    by (auto simp: socket_ids_def dest: map_of_SomeD intro: rev_image_eqI)
  moreover have "c \<noteq> sid" using c assms(2,3) by auto
  ultimately have "c \<in> set (filter (\<lambda>r. r \<noteq> sid) (socket_ids st))" by simp
  moreover have "distinct (filter (\<lambda>r. r \<noteq> sid) (socket_ids st))"
    using assms(1) by (simp add: wf_def)
  ultimately show "delivered_to c (snd (disconnect st sid))
           = [(c, ''device_list_update'', [entries (devices (fst (disconnect st sid)))])]"
    by (simp only: out delivered_once)
qed

lemma roster_on_controller:
  assumes "qtype q \<noteq> Some ''device''"
  shows "connection clk st sid q
           = (st\<lparr>sockets := sockets st @ [(sid, q)]\<rparr>,
              [(sid, ''device_list_update'', [entries (devices st)])])"
  using assms by (simp add: connection_def Let_def socket_emit_def)

section \<open>Attributing a message to its device\<close>

lemma scan_first:
  "(\<forall>e \<in> set r. socketId (snd e) = s \<longrightarrow> fst e = k) \<Longrightarrow> (k, dev) \<in> set r
   \<Longrightarrow> socketId dev = s \<Longrightarrow> getDeviceIdBySocketId r s = key_js k"
  by (induction r) auto

lemma scan_none:
  "(\<forall>e \<in> set r. socketId (snd e) \<noteq> s) \<Longrightarrow> getDeviceIdBySocketId r s = JNull"
  by (induction r) auto

lemma sender_id:
  assumes "wf st" "(k, dev) \<in> set (devices st)"
  shows "getDeviceIdBySocketId (devices st) (socketId dev) = key_js k"
proof -
  have live: "entry_live st e" if "e \<in> set (devices st)" for e
    using that assms(1) by (simp add: wf_def list_all_iff)
  have "fst e = k" if "e \<in> set (devices st)" "socketId (snd e) = socketId dev" for e
    using live[OF that(1)] live[OF assms(2)] that(2)
    by (auto simp: entry_live_def split: option.splits)
  then show ?thesis using assms(2) by (intro scan_first) auto
qed

lemma heartbeat_pong:
  "on env clk st sid Heartbeat ts = Inr r \<Longrightarrow>
   \<exists>latency. js_minus env (clk 1) ts = Inr latency \<and>
     snd r = [(sid, ''pong_response'',
               [JObj [(''serverTime'', JNum (clk 0)), (''clientTime'', ts),
                      (''latency'', latency)]])]"
  by (auto simp: bind_err_Inr_iff Let_def socket_emit_def
      split: if_splits option.splits prod.splits)

lemma heartbeat_latency:
  "exact_double t1 \<Longrightarrow> exact_double t0 \<Longrightarrow> exact_double (t1 - t0)
   \<Longrightarrow> js_minus env t1 (JNum t0) = Inr (JNum (t1 - t0))"
  by (simp add: js_minus_def)

lemma heartbeat_touch:
  assumes "wf st" "(Some d, dev) \<in> set (devices st)" "d \<noteq> []"
    and "js_minus env (clk 1) ts = Inr latency"
  shows "\<exists>out. on env clk st (socketId dev) Heartbeat ts
           = Inr (st\<lparr>devices := map_set (devices st) (Some d) (dev\<lparr>lastSeen := Some (clk 2)\<rparr>)\<rparr>,
                  out)"
proof -
  have "map_of (devices st) (Some d) = Some dev"
    using assms by (simp add: wf_def)
  then show ?thesis
    using sender_id[OF assms(1) assms(2)] assms(3,4)
    by (simp add: Let_def devices_has_def devices_get_def)
qed

lemma heartbeat_unregistered:
  assumes "\<forall>e \<in> set (devices st). socketId (snd e) \<noteq> sid"
    and "js_minus env (clk 1) ts = Inr latency"
  shows "\<exists>out. on env clk st sid Heartbeat ts = Inr (st, out)"
  using scan_none[OF assms(1)] assms(2) by (simp add: Let_def)

lemma heartbeat_falsy_id:
  assumes "wf st" "(k, dev) \<in> set (devices st)" "k = None \<or> k = Some []"
    and "js_minus env (clk 1) ts = Inr latency"
  shows "\<exists>out. on env clk st (socketId dev) Heartbeat ts = Inr (st, out)"
  using sender_id[OF assms(1) assms(2)] assms(3,4) by (auto simp: Let_def)

lemma stream_from_device:
  assumes "wf st" "(Some d, dev) \<in> set (devices st)" "socketId dev = sid" "d \<noteq> []"
  shows "on env clk st sid Audio_stream data
           = Inr (st, map (\<lambda>r. (r, ''audio_data'',
                                  [JObj [(''deviceId'', JStr d), (''data'', data)]]))
                          (socket_ids st))"
    and "on env clk st sid Video_frame data
           = Inr (st, map (\<lambda>r. (r, ''video_data'',
                                  [JObj [(''deviceId'', JStr d), (''data'', data)]]))
                          (socket_ids st))"
    and "sid \<in> set (socket_ids st)"
  using sender_id[OF assms(1) assms(2)] entry_socket_live(1)[OF assms(1) assms(2)] assms(3,4)
  by (simp_all add: Let_def io_emit_def)

lemma stream_from_other:
  assumes "\<forall>e \<in> set (devices st). socketId (snd e) \<noteq> sid"
  shows "on env clk st sid Audio_stream data = Inr (st, [])"
    and "on env clk st sid Video_frame data = Inr (st, [])"
  using scan_none[OF assms] by (simp_all add: Let_def)

section \<open>Commands and unknown targets\<close>

lemma registered_target_is_string:
  "devices_get r t = Some d \<Longrightarrow> truthy t \<Longrightarrow> \<exists>s. t = JStr s"
  by (cases t) (auto simp: devices_get_def)

lemma falsy_to_string: "\<not> truthy t \<Longrightarrow> \<exists>s. js_to_string env t = Inr s"
  by (cases t) auto

lemma unknown_target_command:
  assumes "devices_get (devices st) (JStr s) = None" "s \<noteq> []"
    and "(ev, nm) \<in> set (fallback_commands @ targeted_only_commands)"
  shows "on env clk st sid ev (JStr s) = Inr (st, [])"
  using assms
  by (auto simp: fallback_commands_def targeted_only_commands_def sendToDevice_unknown)

lemma unknown_target_field:
  assumes "devices_get (devices st) (JStr s) = None" "s \<noteq> []"
    and "get_prop data ''targetId'' = Inr (JStr s)"
  shows "on env clk st sid Update_config data = Inr (st, [])"
    and "on env clk st sid Webrtc_offer data = Inr (st, [])"
    and "on env clk st sid Webrtc_ice_candidate data = Inr (st, [])"
    and "get_prop data ''quality'' = Inr quality \<Longrightarrow> js_to_string env quality = Inr logged
         \<Longrightarrow> on env clk st sid Update_video_quality data = Inr (st, [])"
proof -
  from assms(3) obtain fs where fs: "data = JObj fs" by (cases data) auto
  show "on env clk st sid Update_config data = Inr (st, [])"
    using assms by (simp add: fs sendToDevice_unknown)
  show "on env clk st sid Webrtc_offer data = Inr (st, [])"
    using assms by (simp add: fs sendToDevice_unknown)
  show "on env clk st sid Webrtc_ice_candidate data = Inr (st, [])"
    using assms by (simp add: fs sendToDevice_unknown)
  show "on env clk st sid Update_video_quality data = Inr (st, [])"
    if "get_prop data ''quality'' = Inr quality" "js_to_string env quality = Inr logged"
    using assms that by (simp add: fs sendToDevice_unknown)
qed

lemma unknown_target_parsed:
  assumes "devices_get (devices st) (JStr s) = None" "s \<noteq> []"
    and "json_parse env raw = Some p" "get_prop p ''targetId'' = Inr (JStr s)"
  shows "on env clk st sid Webrtc_offer (JStr raw) = Inr (st, [])"
    and "on env clk st sid Webrtc_ice_candidate (JStr raw) = Inr (st, [])"
proof -
  from assms(4) obtain fs where fs: "p = JObj fs" by (cases p) auto
  show "on env clk st sid Webrtc_offer (JStr raw) = Inr (st, [])"
    using assms by (simp add: fs sendToDevice_unknown)
  show "on env clk st sid Webrtc_ice_candidate (JStr raw) = Inr (st, [])"
    using assms by (simp add: fs sendToDevice_unknown)
qed

lemma command_targeted:
  assumes "wf st" "(ev, nm) \<in> set (fallback_commands @ targeted_only_commands)"
    and "truthy t" "devices_get (devices st) t = Some d"
  shows "on env clk st sid ev t = Inr (st, [(socketId d, nm, [JNull])])"
proof -
  from registered_target_is_string[OF assms(4) assms(3)] obtain s where "t = JStr s" ..
  then show ?thesis
    using assms(2,3) sendToDevice_known[OF assms(1) assms(4)]
    by (auto simp: fallback_commands_def targeted_only_commands_def)
qed

lemma command_fallback:
  assumes "(ev, nm) \<in> set fallback_commands" "\<not> truthy t"
  shows "on env clk st sid ev t
           = Inr (st, map (\<lambda>r. (r, nm, [])) (filter (\<lambda>r. r \<noteq> sid) (socket_ids st)))"
  using assms by (auto simp: fallback_commands_def broadcast_emit_def)

lemma command_no_fallback:
  assumes "(ev, nm) \<in> set targeted_only_commands" "\<not> truthy t"
  shows "on env clk st sid ev t = Inr (st, [])"
proof -
  from falsy_to_string[OF assms(2)] obtain s where "js_to_string env t = Inr s" ..
  then show ?thesis using assms by (auto simp: targeted_only_commands_def)
qed

lemma update_config_targeted:
  assumes "wf st" "get_prop data ''targetId'' = Inr t" "truthy t"
    and "devices_get (devices st) t = Some d" "get_prop data ''config'' = Inr cfg"
  shows "on env clk st sid Update_config data
           = Inr (st, [(socketId d, ''UPDATE_CONFIG'', [if cfg = JUndef then JNull else cfg])])"
  using assms(2,3,5) sendToDevice_known[OF assms(1) assms(4)] by simp

lemma update_config_fallback:
  assumes "get_prop data ''targetId'' = Inr t" "\<not> truthy t"
  shows "on env clk st sid Update_config data
           = Inr (st, map (\<lambda>r. (r, ''UPDATE_CONFIG'', [data]))
                          (filter (\<lambda>r. r \<noteq> sid) (socket_ids st)))"
  using assms by (simp add: broadcast_emit_def)

lemma entries_explicit:
  "entries r
     = JArr (map (\<lambda>e. JArr [case fst e of None \<Rightarrow> JUndef | Some s \<Rightarrow> JStr s,
                             JObj ([(''socketId'', JStr (socketId (snd e))),
                                    (''name'', JStr (name (snd e))),
                                    (''connectedAt'', JDate (connectedAt (snd e)))]
                                   @ (case lastSeen (snd e) of None \<Rightarrow> []
                                      | Some t \<Rightarrow> [(''lastSeen'', JDate t)]))]) r)"
proof -
  have "key_js k = (case k of None \<Rightarrow> JUndef | Some s \<Rightarrow> JStr s)" for k
    by (cases k) simp_all
  then show ?thesis by (simp add: entries_def device_js_def)
qed

section \<open>The claims\<close>

text \<open>
  C1, as the code has it. The \<open>disconnect\<close> listener of a device connection deletes the
  entry under the \<open>deviceId\<close> that connection registered with, without looking at the
  connection the entry refers to. So when device \<open>d\<close> has registered on connection
  \<open>c1\<close> and again on connection \<open>c2\<close>, the registry maps \<open>d\<close> to \<open>c2\<close>, and the
  disconnect of \<open>c1\<close> removes that entry; the entries under other keys stay.
\<close>

theorem stale_disconnect_evicts:
  assumes "qtype q1 = Some ''device''" "qdeviceId q1 = d"
    and "qtype q2 = Some ''device''" "qdeviceId q2 = d"
    and "c1 \<notin> set (socket_ids st)" "c1 \<noteq> c2"
  shows "map_of (devices (fst (connection clk2 (fst (connection clk1 st c1 q1)) c2 q2))) d
           = Some \<lparr>socketId = c2, name = display_name q2, connectedAt = clk2 0, lastSeen = None\<rparr>
    \<and> map_of (devices (fst (disconnect
          (fst (connection clk2 (fst (connection clk1 st c1 q1)) c2 q2)) c1))) d = None
    \<and> (k \<noteq> d \<longrightarrow>
         map_of (devices (fst (disconnect
            (fst (connection clk2 (fst (connection clk1 st c1 q1)) c2 q2)) c1))) k
         = map_of (devices (fst (connection clk2 (fst (connection clk1 st c1 q1)) c2 q2))) k)"
proof -
  let ?s2 = "fst (connection clk2 (fst (connection clk1 st c1 q1)) c2 q2)"
  have "map_of (sockets ?s2) c1 = Some q1"
    using assms by (simp add: connection_device socket_ids_def map_add_def map_of_fresh)
  from disconnect_device[OF this assms(1)]
  have "devices (fst (disconnect ?s2 c1)) = map_delete (devices ?s2) d"
    using assms(2) by simp
  then show ?thesis
    using assms by (simp add: map_of_map_delete connection_device map_of_map_set)
qed

theorem stale_disconnect_evicts_witness:
  "qtype (device_query (Some ''D'')) = Some ''device''
   \<and> qdeviceId (device_query (Some ''D'')) = Some ''D''
   \<and> ''C1'' \<notin> set (socket_ids init) \<and> ''C1'' \<noteq> ''C2''
   \<and> map_of (devices (fst (connection (clock_at 2)
         (fst (connection (clock_at 1) init ''C1'' (device_query (Some ''D''))))
         ''C2'' (device_query (Some ''D''))))) (Some ''D'')
       = Some \<lparr>socketId = ''C2'', name = ''Unknown Device'', connectedAt = 2, lastSeen = None\<rparr>
   \<and> map_of (devices (fst (disconnect (fst (connection (clock_at 2)
         (fst (connection (clock_at 1) init ''C1'' (device_query (Some ''D''))))
         ''C2'' (device_query (Some ''D'')))) ''C1''))) (Some ''D'') = None"
proof -
  have h: "qtype (device_query (Some ''D'')) = Some ''device''"
    "qdeviceId (device_query (Some ''D'')) = Some ''D''"
    "''C1'' \<notin> set (socket_ids init)" "''C1'' \<noteq> ''C2''"
    by (simp_all add: device_query_def init_def socket_ids_def)
  have n: "display_name (device_query (Some ''D'')) = ''Unknown Device''" "clock_at 2 0 = 2"
    by (simp_all add: display_name_def device_query_def clock_at_def)
  from stale_disconnect_evicts[OF h(1) h(2) h(1) h(2) h(3) h(4), of "clock_at 2" "clock_at 1"] h n
  show ?thesis by simp
qed

text \<open>
  The claim as stated fails on the reconnection scenario: after the disconnect of \<open>C1\<close>
  the registry is empty, so it does not contain \<open>D \<rightarrow> C2\<close>.
\<close>

theorem stale_disconnect_counterexample:
  "map bindings (run example_env init reconnect_scenario)
     = [[], [(Some ''D'', ''C1'')], [(Some ''D'', ''C2'')], []]"
  by (simp add: reconnect_scenario_def bindings_def init_def socket_ids_def connection_def
      disconnect_def map_delete_def device_query_def Let_def)

text \<open>
  C2. A string that \<open>JSON.parse\<close> rejects, sent on the three WebRTC events. The
  \<open>webrtc_answer\<close> listener never parses and the \<open>webrtc_ice_candidate\<close> listener
  catches the parse error: both broadcast the raw string to every connection but the
  sender. The \<open>webrtc_offer\<close> listener parses outside any \<open>try\<close>, so there the
  SyntaxError leaves the listener uncaught and nothing is sent.
\<close>

theorem webrtc_malformed_json:
  assumes "json_parse env s = None"
  shows "on env clk st sid Webrtc_offer (JStr s) = Inl SyntaxError
    \<and> on env clk st sid Webrtc_answer (JStr s)
        = Inr (st, map (\<lambda>r. (r, ''webrtc_answer'', [JStr s]))
                       (filter (\<lambda>r. r \<noteq> sid) (socket_ids st)))
    \<and> on env clk st sid Webrtc_ice_candidate (JStr s)
        = Inr (st, map (\<lambda>r. (r, ''webrtc_ice_candidate'', [JStr s]))
                       (filter (\<lambda>r. r \<noteq> sid) (socket_ids st)))"
  using assms by (simp add: broadcast_emit_def)

theorem webrtc_malformed_json_witness:
  "json_parse example_env ''not json'' = None
   \<and> on example_env (clock_at 9) example_state ''S1'' Webrtc_offer (JStr ''not json'')
       = Inl SyntaxError
   \<and> on example_env (clock_at 9) example_state ''S1'' Webrtc_answer (JStr ''not json'')
       = Inr (example_state, [(''S2'', ''webrtc_answer'', [JStr ''not json'']),
                              (''A1'', ''webrtc_answer'', [JStr ''not json''])])
   \<and> on example_env (clock_at 9) example_state ''S1'' Webrtc_ice_candidate (JStr ''not json'')
       = Inr (example_state, [(''S2'', ''webrtc_ice_candidate'', [JStr ''not json'']),
                              (''A1'', ''webrtc_ice_candidate'', [JStr ''not json''])])"
proof -
  have h: "json_parse example_env ''not json'' = None"
    by (simp add: example_env_def)
  have ids: "filter (\<lambda>r. r \<noteq> ''S1'') (socket_ids example_state) = [''S2'', ''A1'']"
    by (simp add: example_state_def socket_ids_def)
  from webrtc_malformed_json[OF h, of "clock_at 9" example_state "''S1''"] h ids
  show ?thesis by (simp add: Let_def)
qed

text \<open>
  C3, as the code has it. With a truthy target id that is registered, every command
  listener sends its renamed event (with the default \<open>null\<close> argument) to the target
  device's connection and to no other; \<open>update_config\<close> sends \<open>UPDATE_CONFIG\<close> with the
  \<open>config\<close> field, or with \<open>null\<close> when the payload has none. With a falsy target id (none supplied), the nine commands of
  \<open>fallback_commands\<close> broadcast their renamed event, without argument, to every
  connection but the sender, and \<open>update_config\<close> broadcasts \<open>UPDATE_CONFIG\<close> with its
  whole payload; the commands of \<open>targeted_only_commands\<close> (\<open>get_config\<close>,
  \<open>get_storage_stats\<close>, \<open>hide_app\<close>, \<open>show_app\<close> and the manual-recording commands
  among them) send nothing.
\<close>

theorem command_routing:
  assumes "wf st"
  shows "((ev, nm) \<in> set (fallback_commands @ targeted_only_commands) \<and> truthy t
            \<and> devices_get (devices st) t = Some d
          \<longrightarrow> on env clk st sid ev t = Inr (st, [(socketId d, nm, [JNull])]))
    \<and> ((ev, nm) \<in> set fallback_commands \<and> \<not> truthy t
          \<longrightarrow> on env clk st sid ev t
                = Inr (st, map (\<lambda>r. (r, nm, [])) (filter (\<lambda>r. r \<noteq> sid) (socket_ids st))))
    \<and> ((ev, nm) \<in> set targeted_only_commands \<and> \<not> truthy t
          \<longrightarrow> on env clk st sid ev t = Inr (st, []))
    \<and> (get_prop data ''targetId'' = Inr t \<and> truthy t \<and> devices_get (devices st) t = Some d
            \<and> get_prop data ''config'' = Inr cfg
          \<longrightarrow> on env clk st sid Update_config data
                = Inr (st, [(socketId d, ''UPDATE_CONFIG'',
                             [if cfg = JUndef then JNull else cfg])]))
    \<and> (get_prop data ''targetId'' = Inr t \<and> \<not> truthy t
          \<longrightarrow> on env clk st sid Update_config data
                = Inr (st, map (\<lambda>r. (r, ''UPDATE_CONFIG'', [data]))
                               (filter (\<lambda>r. r \<noteq> sid) (socket_ids st))))"
  using command_targeted[OF assms, of ev nm t d env clk sid]
    command_fallback[of ev nm t env clk st sid]
    command_no_fallback[of ev nm t env clk st sid]
    update_config_targeted[OF assms, of data t d cfg env clk sid]
    update_config_fallback[of data t env clk st sid]
  by blast

theorem command_routing_witness:
  "wf example_state
   \<and> (Hide_app, ''HIDE_APP'') \<in> set (fallback_commands @ targeted_only_commands)
   \<and> truthy (JStr ''D1'')
   \<and> devices_get (devices example_state) (JStr ''D1'')
       = Some \<lparr>socketId = ''S1'', name = ''Unknown Device'', connectedAt = 1, lastSeen = None\<rparr>
   \<and> on example_env (clock_at 9) example_state ''A1'' Hide_app (JStr ''D1'')
       = Inr (example_state, [(''S1'', ''HIDE_APP'', [JNull])])
   \<and> (Start_monitoring, ''START_AUDIO'') \<in> set fallback_commands \<and> \<not> truthy JUndef
   \<and> on example_env (clock_at 9) example_state ''A1'' Start_monitoring JUndef
       = Inr (example_state, [(''S1'', ''START_AUDIO'', []), (''S2'', ''START_AUDIO'', [])])
   \<and> (Get_config, ''GET_CONFIG'') \<in> set targeted_only_commands
   \<and> on example_env (clock_at 9) example_state ''A1'' Get_config JUndef
       = Inr (example_state, [])
   \<and> get_prop (JObj [(''targetId'', JStr ''D1''), (''config'', JNum 7)]) ''targetId''
       = Inr (JStr ''D1'')
   \<and> get_prop (JObj [(''targetId'', JStr ''D1''), (''config'', JNum 7)]) ''config''
       = Inr (JNum 7)
   \<and> on example_env (clock_at 9) example_state ''A1'' Update_config
        (JObj [(''targetId'', JStr ''D1''), (''config'', JNum 7)])
       = Inr (example_state, [(''S1'', ''UPDATE_CONFIG'', [JNum 7])])
   \<and> get_prop (JObj [(''targetId'', JStr ''D1'')]) ''targetId'' = Inr (JStr ''D1'')
   \<and> get_prop (JObj [(''targetId'', JStr ''D1'')]) ''config'' = Inr JUndef
   \<and> on example_env (clock_at 9) example_state ''A1'' Update_config
        (JObj [(''targetId'', JStr ''D1'')])
       = Inr (example_state, [(''S1'', ''UPDATE_CONFIG'', [JNull])])
   \<and> get_prop (JObj [(''config'', JNum 7)]) ''targetId'' = Inr JUndef
   \<and> on example_env (clock_at 9) example_state ''A1'' Update_config (JObj [(''config'', JNum 7)])
       = Inr (example_state, [(''S1'', ''UPDATE_CONFIG'', [JObj [(''config'', JNum 7)]]),
                              (''S2'', ''UPDATE_CONFIG'', [JObj [(''config'', JNum 7)]])])"
proof -
  let ?dev = "\<lparr>socketId = ''S1'', name = ''Unknown Device'', connectedAt = 1, lastSeen = None\<rparr>"
  let ?targeted = "JObj [(''targetId'', JStr ''D1''), (''config'', JNum 7)]"
  let ?plain = "JObj [(''config'', JNum 7)]"
  let ?bare = "JObj [(''targetId'', JStr ''D1'')]"
  have m: "(Hide_app, ''HIDE_APP'') \<in> set (fallback_commands @ targeted_only_commands)"
    "(Start_monitoring, ''START_AUDIO'') \<in> set fallback_commands"
    "(Get_config, ''GET_CONFIG'') \<in> set targeted_only_commands"
    by (simp_all add: fallback_commands_def targeted_only_commands_def)
  have t: "truthy (JStr ''D1'')" "\<not> truthy JUndef"
    "devices_get (devices example_state) (JStr ''D1'') = Some ?dev"
    by (simp_all add: example_state_def devices_get_def)
  have g: "get_prop ?targeted ''targetId'' = Inr (JStr ''D1'')"
    "get_prop ?targeted ''config'' = Inr (JNum 7)" "get_prop ?plain ''targetId'' = Inr JUndef"
    "get_prop ?bare ''targetId'' = Inr (JStr ''D1'')" "get_prop ?bare ''config'' = Inr JUndef"
    by simp_all
  have ids: "filter (\<lambda>r. r \<noteq> ''A1'') (socket_ids example_state) = [''S1'', ''S2'']"
    by (simp add: example_state_def socket_ids_def)
  from command_routing[OF wf_example_state, of Hide_app "''HIDE_APP''" "JStr ''D1''" ?dev
      example_env "clock_at 9" "''A1''"] m t
  have a: "on example_env (clock_at 9) example_state ''A1'' Hide_app (JStr ''D1'')
       = Inr (example_state, [(socketId ?dev, ''HIDE_APP'', [JNull])])"
    by blast
  from command_routing[OF wf_example_state, of Start_monitoring "''START_AUDIO''" JUndef _
      example_env "clock_at 9" "''A1''"] m t
  have b: "on example_env (clock_at 9) example_state ''A1'' Start_monitoring JUndef
       = Inr (example_state, map (\<lambda>r. (r, ''START_AUDIO'', []))
                (filter (\<lambda>r. r \<noteq> ''A1'') (socket_ids example_state)))"
    by blast
  from command_routing[OF wf_example_state, of Get_config "''GET_CONFIG''" JUndef _
      example_env "clock_at 9" "''A1''"] m t
  have c: "on example_env (clock_at 9) example_state ''A1'' Get_config JUndef
       = Inr (example_state, [])"
    by blast
  from command_routing[OF wf_example_state, of _ _ "JStr ''D1''" ?dev example_env "clock_at 9"
      "''A1''" ?targeted "JNum 7"] t g
  have d: "on example_env (clock_at 9) example_state ''A1'' Update_config ?targeted
       = Inr (example_state, [(socketId ?dev, ''UPDATE_CONFIG'',
                               [if JNum 7 = JUndef then JNull else JNum 7])])"
    by blast
  from command_routing[OF wf_example_state, of _ _ "JStr ''D1''" ?dev example_env "clock_at 9"
      "''A1''" ?bare JUndef] t g
  have d': "on example_env (clock_at 9) example_state ''A1'' Update_config ?bare
       = Inr (example_state, [(socketId ?dev, ''UPDATE_CONFIG'',
                               [if JUndef = JUndef then JNull else JUndef])])"
    by blast
  from command_routing[OF wf_example_state, of _ _ JUndef _ example_env "clock_at 9"
      "''A1''" ?plain] t g
  have e: "on example_env (clock_at 9) example_state ''A1'' Update_config ?plain
       = Inr (example_state, map (\<lambda>r. (r, ''UPDATE_CONFIG'', [?plain]))
                (filter (\<lambda>r. r \<noteq> ''A1'') (socket_ids example_state)))"
    by blast
  from a b c d d' e m t g wf_example_state show ?thesis by (simp add: ids)
qed

text \<open>
  The claim as stated fails for the commands without a fallback: the dashboard on socket
  \<open>A1\<close> sends \<open>hide_app\<close> (and \<open>get_config\<close>) with no target id while two other
  connections are live, and nothing is sent.
\<close>

theorem command_routing_counterexample:
  "filter (\<lambda>r. r \<noteq> ''A1'') (socket_ids example_state) = [''S1'', ''S2'']
   \<and> on example_env (clock_at 9) example_state ''A1'' Hide_app JUndef = Inr (example_state, [])
   \<and> on example_env (clock_at 9) example_state ''A1'' Get_config JUndef = Inr (example_state, [])"
  by (simp add: example_state_def socket_ids_def)

text \<open>
  C4, as the code has it. When the sender of \<open>audio_stream\<close> (\<open>video_frame\<close>) is the
  connection of a registry entry with a non-empty \<open>deviceId\<close>, one \<open>audio_data\<close>
  (\<open>video_data\<close>) event carrying \<open>{deviceId, data}\<close> goes to every live connection, the
  sender among them. When no registry entry has the sender's socket id (a dashboard, for
  one), nothing is sent.
\<close>

theorem stream_relay:
  assumes "wf st"
  shows "((Some d, dev) \<in> set (devices st) \<and> socketId dev = sid \<and> d \<noteq> [] \<longrightarrow>
            on env clk st sid Audio_stream data
              = Inr (st, map (\<lambda>r. (r, ''audio_data'',
                                     [JObj [(''deviceId'', JStr d), (''data'', data)]]))
                             (socket_ids st))
          \<and> on env clk st sid Video_frame data
              = Inr (st, map (\<lambda>r. (r, ''video_data'',
                                     [JObj [(''deviceId'', JStr d), (''data'', data)]]))
                             (socket_ids st))
          \<and> sid \<in> set (socket_ids st))
    \<and> ((\<forall>e \<in> set (devices st). socketId (snd e) \<noteq> sid) \<longrightarrow>
            on env clk st sid Audio_stream data = Inr (st, [])
          \<and> on env clk st sid Video_frame data = Inr (st, []))"
  using stream_from_device(1)[OF assms, of d dev sid env clk data]
    stream_from_device(2)[OF assms, of d dev sid env clk data]
    stream_from_device(3)[OF assms, of d dev sid]
    stream_from_other[of st sid env clk data]
  by blast

theorem stream_relay_witness:
  "wf example_state
   \<and> (Some ''D1'', \<lparr>socketId = ''S1'', name = ''Unknown Device'', connectedAt = 1,
                    lastSeen = None\<rparr>) \<in> set (devices example_state)
   \<and> ''D1'' \<noteq> []
   \<and> on example_env (clock_at 9) example_state ''S1'' Audio_stream (JStr ''pcm'')
       = Inr (example_state,
              map (\<lambda>r. (r, ''audio_data'',
                         [JObj [(''deviceId'', JStr ''D1''), (''data'', JStr ''pcm'')]]))
                  [''S1'', ''S2'', ''A1''])
   \<and> on example_env (clock_at 9) example_state ''S1'' Video_frame (JStr ''pcm'')
       = Inr (example_state,
              map (\<lambda>r. (r, ''video_data'',
                         [JObj [(''deviceId'', JStr ''D1''), (''data'', JStr ''pcm'')]]))
                  [''S1'', ''S2'', ''A1''])
   \<and> ''S1'' \<in> set (socket_ids example_state)
   \<and> list_all (\<lambda>e. socketId (snd e) \<noteq> ''A1'') (devices example_state)
   \<and> on example_env (clock_at 9) example_state ''A1'' Video_frame (JStr ''pcm'')
       = Inr (example_state, [])"
proof -
  let ?dev = "\<lparr>socketId = ''S1'', name = ''Unknown Device'', connectedAt = 1, lastSeen = None\<rparr>"
  have h: "(Some ''D1'', ?dev) \<in> set (devices example_state)" "socketId ?dev = ''S1''"
    "''D1'' \<noteq> []" "socket_ids example_state = [''S1'', ''S2'', ''A1'']"
    by (simp_all add: example_state_def socket_ids_def)
  have o: "\<forall>e \<in> set (devices example_state). socketId (snd e) \<noteq> ''A1''"
    by (simp add: example_state_def)
  from stream_relay[OF wf_example_state, of "''D1''" ?dev "''S1''" example_env "clock_at 9"
      "JStr ''pcm''"] h
  have a: "on example_env (clock_at 9) example_state ''S1'' Audio_stream (JStr ''pcm'')
       = Inr (example_state,
              map (\<lambda>r. (r, ''audio_data'',
                         [JObj [(''deviceId'', JStr ''D1''), (''data'', JStr ''pcm'')]]))
                  [''S1'', ''S2'', ''A1''])
     \<and> on example_env (clock_at 9) example_state ''S1'' Video_frame (JStr ''pcm'')
       = Inr (example_state,
              map (\<lambda>r. (r, ''video_data'',
                         [JObj [(''deviceId'', JStr ''D1''), (''data'', JStr ''pcm'')]]))
                  [''S1'', ''S2'', ''A1''])"
    by simp
  from stream_relay[OF wf_example_state, of _ _ "''A1''" example_env "clock_at 9"
      "JStr ''pcm''"] o
  have b: "on example_env (clock_at 9) example_state ''A1'' Video_frame (JStr ''pcm'')
       = Inr (example_state, [])"
    by blast
  from a b h o wf_example_state show ?thesis by (simp add: list_all_iff)
qed

text \<open>
  The claim as stated fails for a sender that is not a registered device: the dashboard
  on socket \<open>A1\<close> sends \<open>audio_stream\<close> and no connection receives anything.
\<close>

theorem stream_relay_counterexample:
  "''A1'' \<in> set (socket_ids example_state)
   \<and> on example_env (clock_at 9) example_state ''A1'' Audio_stream (JStr ''pcm'')
       = Inr (example_state, [])"
  by (simp add: example_state_def socket_ids_def)

text \<open>
  C5. In every state of every run from the empty server, whatever the events, the
  registry has at most one entry per \<open>deviceId\<close>; and registering a device in such a
  state leaves exactly one entry under its \<open>deviceId\<close>, the one of the registering
  connection.
\<close>

theorem registry_uniqueness:
  "\<forall>s \<in> set (run env init es).
     distinct (map fst (devices s))
     \<and> (\<forall>clk sid q. qtype q = Some ''device'' \<longrightarrow>
          filter (\<lambda>e. fst e = qdeviceId q) (devices (fst (connection clk s sid q)))
          = [(qdeviceId q, \<lparr>socketId = sid, name = display_name q, connectedAt = clk 0,
                            lastSeen = None\<rparr>)])"
proof
  fix s assume "s \<in> set (run env init es)"
  from wf_run[OF wf_init this] have d: "distinct (map fst (devices s))"
    by (simp add: wf_def)
  then show "distinct (map fst (devices s))
     \<and> (\<forall>clk sid q. qtype q = Some ''device'' \<longrightarrow>
          filter (\<lambda>e. fst e = qdeviceId q) (devices (fst (connection clk s sid q)))
          = [(qdeviceId q, \<lparr>socketId = sid, name = display_name q, connectedAt = clk 0,
                            lastSeen = None\<rparr>)])"
    by (simp add: connection_device one_entry_after_set)
qed

theorem registry_uniqueness_witness:
  "\<lparr>devices = [(Some ''D'', \<lparr>socketId = ''C1'', name = ''Unknown Device'', connectedAt = 1,
                              lastSeen = None\<rparr>)],
     sockets = [(''C1'', device_query (Some ''D''))]\<rparr>
     \<in> set (run example_env init reconnect_scenario)
   \<and> distinct (map fst (devices
        \<lparr>devices = [(Some ''D'', \<lparr>socketId = ''C1'', name = ''Unknown Device'',
                                  connectedAt = 1, lastSeen = None\<rparr>)],
          sockets = [(''C1'', device_query (Some ''D''))]\<rparr>))
   \<and> qtype (device_query (Some ''D'')) = Some ''device''
   \<and> filter (\<lambda>e. fst e = qdeviceId (device_query (Some ''D'')))
        (devices (fst (connection (clock_at 2)
          \<lparr>devices = [(Some ''D'', \<lparr>socketId = ''C1'', name = ''Unknown Device'',
                                    connectedAt = 1, lastSeen = None\<rparr>)],
            sockets = [(''C1'', device_query (Some ''D''))]\<rparr>
          ''C2'' (device_query (Some ''D'')))))
       = [(Some ''D'', \<lparr>socketId = ''C2'', name = ''Unknown Device'', connectedAt = 2,
                        lastSeen = None\<rparr>)]"
proof -
  let ?s = "\<lparr>devices = [(Some ''D'', \<lparr>socketId = ''C1'', name = ''Unknown Device'',
                                      connectedAt = 1, lastSeen = None\<rparr>)],
              sockets = [(''C1'', device_query (Some ''D''))]\<rparr>"
  have m: "?s \<in> set (run example_env init reconnect_scenario)"
    by (simp add: reconnect_scenario_def init_def socket_ids_def connection_def
        device_query_def display_name_def clock_at_def Let_def)
  have q: "qtype (device_query (Some ''D'')) = Some ''device''"
    "qdeviceId (device_query (Some ''D'')) = Some ''D''"
    "display_name (device_query (Some ''D'')) = ''Unknown Device''" "clock_at 2 0 = 2"
    by (simp_all add: device_query_def display_name_def clock_at_def)
  from registry_uniqueness[of example_env reconnect_scenario] m
  have "distinct (map fst (devices ?s))
     \<and> (\<forall>clk sid q. qtype q = Some ''device'' \<longrightarrow>
          filter (\<lambda>e. fst e = qdeviceId q) (devices (fst (connection clk ?s sid q)))
          = [(qdeviceId q, \<lparr>socketId = sid, name = display_name q, connectedAt = clk 0,
                            lastSeen = None\<rparr>)])"
    by blast
  then have "distinct (map fst (devices ?s))
     \<and> filter (\<lambda>e. fst e = qdeviceId (device_query (Some ''D'')))
          (devices (fst (connection (clock_at 2) ?s ''C2'' (device_query (Some ''D'')))))
        = [(qdeviceId (device_query (Some ''D'')),
            \<lparr>socketId = ''C2'', name = display_name (device_query (Some ''D'')),
             connectedAt = clock_at 2 0, lastSeen = None\<rparr>)]"
    using q(1) by blast
  then show ?thesis using m q by simp
qed

text \<open>
  C6. The payload of \<open>device_list_update\<close> is the snapshot of a registry: the array of
  its entries in order, each a pair of the device id and the object holding socketId,
  name, connectedAt and, once set, lastSeen. When a device registers, one
  \<open>device_list_update\<close> with the snapshot of the registry as it is after the registration
  (the old entries with the new device's entry set) goes to every connection that was
  live before, so each live connection that is not a device receives exactly that one
  event. When a device connection closes, one \<open>device_list_update\<close> with the snapshot of
  the registry as it is after the removal (the old entries without the one under the
  device's id) goes to every remaining connection, so again each connection that is not
  a device receives exactly one. A connection that does not declare \<open>type=device\<close>
  receives, on connecting, one \<open>device_list_update\<close> with the snapshot of the current
  registry, sent to it alone; the registry does not change.
\<close>

theorem roster_broadcast:
  assumes "wf st"
  shows "entries reg
           = JArr (map (\<lambda>e. JArr [case fst e of None \<Rightarrow> JUndef | Some s \<Rightarrow> JStr s,
                                   JObj ([(''socketId'', JStr (socketId (snd e))),
                                          (''name'', JStr (name (snd e))),
                                          (''connectedAt'', JDate (connectedAt (snd e)))]
                                         @ (case lastSeen (snd e) of None \<Rightarrow> []
                                            | Some t \<Rightarrow> [(''lastSeen'', JDate t)]))]) reg)
    \<and> (qtype q = Some ''device'' \<and> sid \<notin> set (socket_ids st) \<longrightarrow>
            snd (connection clk st sid q)
              = map (\<lambda>r. (r, ''device_list_update'',
                           [entries (devices (fst (connection clk st sid q)))]))
                    (socket_ids st)
          \<and> map_of (devices (fst (connection clk st sid q)))
              = (map_of (devices st))(qdeviceId q \<mapsto>
                  \<lparr>socketId = sid, name = display_name q, connectedAt = clk 0,
                   lastSeen = None\<rparr>)
          \<and> (qdeviceId q, \<lparr>socketId = sid, name = display_name q, connectedAt = clk 0,
                            lastSeen = None\<rparr>) \<in> set (devices (fst (connection clk st sid q)))
          \<and> (map_of (sockets st) c = Some qc \<and> qtype qc \<noteq> Some ''device'' \<longrightarrow>
               delivered_to c (snd (connection clk st sid q))
                 = [(c, ''device_list_update'',
                     [entries (devices (fst (connection clk st sid q)))])]))
    \<and> (map_of (sockets st) sid = Some q \<and> qtype q = Some ''device'' \<longrightarrow>
            snd (disconnect st sid)
              = map (\<lambda>r. (r, ''device_list_update'',
                           [entries (devices (fst (disconnect st sid)))]))
                    (filter (\<lambda>r. r \<noteq> sid) (socket_ids st))
          \<and> devices (fst (disconnect st sid))
              = filter (\<lambda>e. fst e \<noteq> qdeviceId q) (devices st)
          \<and> qdeviceId q \<notin> set (map fst (devices (fst (disconnect st sid))))
          \<and> (map_of (sockets st) c = Some qc \<and> qtype qc \<noteq> Some ''device'' \<longrightarrow>
               delivered_to c (snd (disconnect st sid))
                 = [(c, ''device_list_update'', [entries (devices (fst (disconnect st sid)))])]))
    \<and> (qtype q \<noteq> Some ''device'' \<longrightarrow>
            connection clk st sid q
              = (st\<lparr>sockets := sockets st @ [(sid, q)]\<rparr>,
                 [(sid, ''device_list_update'', [entries (devices st)])]))"
proof -
  have registered: "map_of (devices (fst (connection clk st sid q)))
              = (map_of (devices st))(qdeviceId q \<mapsto>
                  \<lparr>socketId = sid, name = display_name q, connectedAt = clk 0,
                   lastSeen = None\<rparr>)"
    if "qtype q = Some ''device''"
    using that by (simp add: connection_device map_of_map_set)
  have removed: "devices (fst (disconnect st sid))
              = filter (\<lambda>e. fst e \<noteq> qdeviceId q) (devices st)"
    if "map_of (sockets st) sid = Some q" "qtype q = Some ''device''"
    using that by (simp add: disconnect_device map_delete_def)
  from entries_explicit[of reg] registered removed
    roster_on_register(1)[OF assms, of q sid clk]
    roster_on_register(2)[OF assms, of q sid clk]
    roster_on_register(3)[OF assms, of q sid c qc clk]
    roster_on_unregister(1)[OF assms, of sid q]
    roster_on_unregister(2)[OF assms, of sid q]
    roster_on_unregister(3)[OF assms, of sid q c qc]
    roster_on_controller[of q clk st sid]
  show ?thesis by blast
qed

theorem roster_broadcast_witness:
  "wf example_state
   \<and> qtype (device_query (Some ''D2'')) = Some ''device''
   \<and> ''S3'' \<notin> set (socket_ids example_state)
   \<and> map_of (sockets example_state) ''A1'' = Some controller_query
   \<and> qtype controller_query \<noteq> Some ''device''
   \<and> snd (connection (clock_at 5) example_state ''S3'' (device_query (Some ''D2'')))
       = map (\<lambda>r. (r, ''device_list_update'',
                    [entries (devices (fst (connection (clock_at 5) example_state ''S3''
                                              (device_query (Some ''D2'')))))]))
             (socket_ids example_state)
   \<and> entries (devices (fst (connection (clock_at 5) example_state ''S3''
                              (device_query (Some ''D2'')))))
       = JArr [JArr [JStr ''D1'', JObj [(''socketId'', JStr ''S1''),
                                        (''name'', JStr ''Unknown Device''),
                                        (''connectedAt'', JDate 1)]],
               JArr [JUndef, JObj [(''socketId'', JStr ''S2''),
                                   (''name'', JStr ''Unknown Device''),
                                   (''connectedAt'', JDate 2)]],
               JArr [JStr ''D2'', JObj [(''socketId'', JStr ''S3''),
                                        (''name'', JStr ''Unknown Device''),
                                        (''connectedAt'', JDate 5)]]]
   \<and> delivered_to ''A1''
        (snd (connection (clock_at 5) example_state ''S3'' (device_query (Some ''D2''))))
       = [(''A1'', ''device_list_update'',
           [entries (devices (fst (connection (clock_at 5) example_state ''S3''
                                     (device_query (Some ''D2'')))))])]
   \<and> map_of (sockets example_state) ''S1'' = Some (device_query (Some ''D1''))
   \<and> qtype (device_query (Some ''D1'')) = Some ''device''
   \<and> snd (disconnect example_state ''S1'')
       = map (\<lambda>r. (r, ''device_list_update'',
                    [entries (devices (fst (disconnect example_state ''S1'')))]))
             (filter (\<lambda>r. r \<noteq> ''S1'') (socket_ids example_state))
   \<and> entries (devices (fst (disconnect example_state ''S1'')))
       = JArr [JArr [JUndef, JObj [(''socketId'', JStr ''S2''),
                                   (''name'', JStr ''Unknown Device''),
                                   (''connectedAt'', JDate 2)]]]
   \<and> qdeviceId (device_query (Some ''D1''))
       \<notin> set (map fst (devices (fst (disconnect example_state ''S1''))))
   \<and> delivered_to ''A1'' (snd (disconnect example_state ''S1''))
       = [(''A1'', ''device_list_update'',
           [entries (devices (fst (disconnect example_state ''S1'')))])]
   \<and> connection (clock_at 5) example_state ''A2'' controller_query
       = (example_state\<lparr>sockets := sockets example_state @ [(''A2'', controller_query)]\<rparr>,
          [(''A2'', ''device_list_update'', [entries (devices example_state)])])"
proof -
  let ?reg = "devices (fst (connection (clock_at 5) example_state ''S3''
                              (device_query (Some ''D2''))))"
  let ?unreg = "devices (fst (disconnect example_state ''S1''))"
  have h: "qtype (device_query (Some ''D2'')) = Some ''device''"
    "''S3'' \<notin> set (socket_ids example_state)"
    "map_of (sockets example_state) ''A1'' = Some controller_query"
    "qtype controller_query \<noteq> Some ''device''"
    "map_of (sockets example_state) ''S1'' = Some (device_query (Some ''D1''))"
    "qtype (device_query (Some ''D1'')) = Some ''device''"
    by (simp_all add: device_query_def controller_query_def example_state_def socket_ids_def)
  have r1: "?reg =
      [(Some ''D1'', \<lparr>socketId = ''S1'', name = ''Unknown Device'', connectedAt = 1,
                      lastSeen = None\<rparr>),
       (None, \<lparr>socketId = ''S2'', name = ''Unknown Device'', connectedAt = 2,
               lastSeen = None\<rparr>),
       (Some ''D2'', \<lparr>socketId = ''S3'', name = ''Unknown Device'', connectedAt = 5,
                      lastSeen = None\<rparr>)]"
    by (simp add: connection_def example_state_def device_query_def display_name_def
        clock_at_def Let_def)
  have r2: "?unreg =
      [(None, \<lparr>socketId = ''S2'', name = ''Unknown Device'', connectedAt = 2,
               lastSeen = None\<rparr>)]"
    by (simp add: disconnect_def example_state_def device_query_def map_delete_def Let_def)
  note t1 = roster_broadcast[OF wf_example_state, of ?reg "device_query (Some ''D2'')" "''S3''"
      "clock_at 5" "''A1''" controller_query]
  note t2 = roster_broadcast[OF wf_example_state, of ?unreg "device_query (Some ''D1'')" "''S1''"
      "clock_at 5" "''A1''" controller_query]
  note t3 = roster_broadcast[OF wf_example_state, of "[]" controller_query "''A2''" "clock_at 5"]
  have e1: "entries ?reg
       = JArr [JArr [JStr ''D1'', JObj [(''socketId'', JStr ''S1''),
                                        (''name'', JStr ''Unknown Device''),
                                        (''connectedAt'', JDate 1)]],
               JArr [JUndef, JObj [(''socketId'', JStr ''S2''),
                                   (''name'', JStr ''Unknown Device''),
                                   (''connectedAt'', JDate 2)]],
               JArr [JStr ''D2'', JObj [(''socketId'', JStr ''S3''),
                                        (''name'', JStr ''Unknown Device''),
                                        (''connectedAt'', JDate 5)]]]"
    using t1 by (simp only: r1) simp
  have e2: "entries ?unreg
       = JArr [JArr [JUndef, JObj [(''socketId'', JStr ''S2''),
                                   (''name'', JStr ''Unknown Device''),
                                   (''connectedAt'', JDate 2)]]]"
    using t2 by (simp only: r2) simp
  from t1 t2 t3 h wf_example_state e1 e2
  show ?thesis by blast
qed

text \<open>
  C7. A heartbeat with a numeric timestamp is answered with one \<open>pong_response\<close> to the
  sender (\<open>heartbeat_pong\<close>, \<open>heartbeat_latency\<close>), and the entry of a sender registered under a
  non-empty \<open>deviceId\<close> gets its \<open>lastSeen\<close> (\<open>heartbeat_touch\<close>). A sender registered
  under the absent or the empty \<open>deviceId\<close> is a registered device too, but the test
  \<open>if (deviceId && ...)\<close> takes its key for "not found" (\<open>heartbeat_falsy_id\<close>). In the
  example state socket \<open>S2\<close> is such a device: its heartbeat is answered and the registry
  stays as it was, while the heartbeat of socket \<open>S1\<close> (device \<open>D1\<close>) sets \<open>lastSeen\<close>.
\<close>

theorem heartbeat_device_without_id:
  "on example_env (clock_at 130) example_state ''S2'' Heartbeat (JNum 100)
     = Inr (example_state,
            [(''S2'', ''pong_response'',
              [JObj [(''serverTime'', JNum 130), (''clientTime'', JNum 100),
                     (''latency'', JNum 30)]])])
   \<and> map_of (devices example_state) None
     = Some \<lparr>socketId = ''S2'', name = ''Unknown Device'', connectedAt = 2, lastSeen = None\<rparr>
   \<and> on example_env (clock_at 130) example_state ''S1'' Heartbeat (JNum 100)
     = Inr (example_state\<lparr>devices :=
              [(Some ''D1'', \<lparr>socketId = ''S1'', name = ''Unknown Device'', connectedAt = 1,
                              lastSeen = Some 130\<rparr>),
               (None, \<lparr>socketId = ''S2'', name = ''Unknown Device'', connectedAt = 2,
                       lastSeen = None\<rparr>)]\<rparr>,
            [(''S1'', ''pong_response'',
              [JObj [(''serverTime'', JNum 130), (''clientTime'', JNum 100),
                     (''latency'', JNum 30)]])])"
  by (simp add: example_state_def clock_at_def socket_emit_def js_minus_def exact_double_def
      devices_has_def devices_get_def Let_def)

text \<open>
  C8, as the code has it. A targeted event whose target id is a non-empty string with no
  registry entry is a silent no-op: \<open>sendToDevice\<close> sends nothing, and every listener
  that addresses a target returns normally with the state unchanged and nothing emitted.
  The listeners are the commands that take the target id as their argument,
  \<open>update_config\<close> (target id in the \<open>targetId\<close> field), \<open>webrtc_offer\<close> and
  \<open>webrtc_ice_candidate\<close> (target id in the \<open>targetId\<close> field of the payload, which
  arrives as an object or as a string that parses to one), and \<open>update_video_quality\<close>
  (target id in the \<open>targetId\<close> field) when the \<open>quality\<close> field it logs has a string
  conversion.
\<close>

theorem unknown_target_noop:
  assumes "devices_get (devices st) (JStr s) = None" "s \<noteq> []"
  shows "sendToDevice st (JStr s) nm payload = []
    \<and> ((ev, nm) \<in> set (fallback_commands @ targeted_only_commands)
         \<longrightarrow> on env clk st sid ev (JStr s) = Inr (st, []))
    \<and> (get_prop data ''targetId'' = Inr (JStr s)
         \<longrightarrow> on env clk st sid Update_config data = Inr (st, [])
           \<and> on env clk st sid Webrtc_offer data = Inr (st, [])
           \<and> on env clk st sid Webrtc_ice_candidate data = Inr (st, []))
    \<and> (get_prop data ''targetId'' = Inr (JStr s) \<and> get_prop data ''quality'' = Inr quality
           \<and> js_to_string env quality = Inr logged
         \<longrightarrow> on env clk st sid Update_video_quality data = Inr (st, []))
    \<and> (json_parse env raw = Some p \<and> get_prop p ''targetId'' = Inr (JStr s)
         \<longrightarrow> on env clk st sid Webrtc_offer (JStr raw) = Inr (st, [])
           \<and> on env clk st sid Webrtc_ice_candidate (JStr raw) = Inr (st, []))"
  using sendToDevice_unknown[OF assms(1), of nm payload]
    unknown_target_command[OF assms, of ev nm env clk sid]
    unknown_target_field(1)[OF assms, of data env clk sid]
    unknown_target_field(2)[OF assms, of data env clk sid]
    unknown_target_field(3)[OF assms, of data env clk sid]
    unknown_target_field(4)[OF assms, of data quality env logged clk sid]
    unknown_target_parsed(1)[OF assms, of env raw p clk sid]
    unknown_target_parsed(2)[OF assms, of env raw p clk sid]
  by blast

theorem unknown_target_noop_witness:
  "devices_get (devices example_state) (JStr ''D9'') = None \<and> ''D9'' \<noteq> []
   \<and> sendToDevice example_state (JStr ''D9'') ''HIDE_APP'' JNull = []
   \<and> (Hide_app, ''HIDE_APP'') \<in> set (fallback_commands @ targeted_only_commands)
   \<and> on example_env (clock_at 9) example_state ''A1'' Hide_app (JStr ''D9'')
       = Inr (example_state, [])
   \<and> get_prop (JObj [(''targetId'', JStr ''D9''), (''quality'', JStr ''low'')]) ''targetId''
       = Inr (JStr ''D9'')
   \<and> get_prop (JObj [(''targetId'', JStr ''D9''), (''quality'', JStr ''low'')]) ''quality''
       = Inr (JStr ''low'')
   \<and> js_to_string example_env (JStr ''low'') = Inr ''low''
   \<and> on example_env (clock_at 9) example_state ''A1'' Update_config
        (JObj [(''targetId'', JStr ''D9''), (''quality'', JStr ''low'')])
       = Inr (example_state, [])
   \<and> on example_env (clock_at 9) example_state ''A1'' Update_video_quality
        (JObj [(''targetId'', JStr ''D9''), (''quality'', JStr ''low'')])
       = Inr (example_state, [])
   \<and> on example_env (clock_at 9) example_state ''A1'' Webrtc_offer
        (JObj [(''targetId'', JStr ''D9''), (''quality'', JStr ''low'')])
       = Inr (example_state, [])
   \<and> on example_env (clock_at 9) example_state ''A1'' Webrtc_ice_candidate
        (JObj [(''targetId'', JStr ''D9''), (''quality'', JStr ''low'')])
       = Inr (example_state, [])
   \<and> json_parse example_env ''{\"targetId\":\"D9\"}'' = Some (JObj [(''targetId'', JStr ''D9'')])
   \<and> get_prop (JObj [(''targetId'', JStr ''D9'')]) ''targetId'' = Inr (JStr ''D9'')
   \<and> on example_env (clock_at 9) example_state ''A1'' Webrtc_offer
        (JStr ''{\"targetId\":\"D9\"}'') = Inr (example_state, [])
   \<and> on example_env (clock_at 9) example_state ''A1'' Webrtc_ice_candidate
        (JStr ''{\"targetId\":\"D9\"}'') = Inr (example_state, [])"
proof -
  let ?data = "JObj [(''targetId'', JStr ''D9''), (''quality'', JStr ''low'')]"
  have h: "devices_get (devices example_state) (JStr ''D9'') = None" "''D9'' \<noteq> []"
    by (simp_all add: example_state_def devices_get_def)
  have m: "(Hide_app, ''HIDE_APP'') \<in> set (fallback_commands @ targeted_only_commands)"
    by (simp add: targeted_only_commands_def)
  have g: "get_prop ?data ''targetId'' = Inr (JStr ''D9'')"
    "get_prop ?data ''quality'' = Inr (JStr ''low'')"
    "js_to_string example_env (JStr ''low'') = Inr ''low''"
    by simp_all
  have j: "json_parse example_env ''{\"targetId\":\"D9\"}'' = Some (JObj [(''targetId'', JStr ''D9'')])
      \<and> get_prop (JObj [(''targetId'', JStr ''D9'')]) ''targetId'' = Inr (JStr ''D9'')"
    by (simp add: example_env_def)
  from unknown_target_noop[OF h, of "''HIDE_APP''" JNull Hide_app example_env "clock_at 9" "''A1''"
      ?data "JStr ''low''" "''low''" "''{\"targetId\":\"D9\"}''"
      "JObj [(''targetId'', JStr ''D9'')]"] h m g j
  show ?thesis by blast
qed

text \<open>
  The claim as stated fails for the empty target id: no entry is registered under it, and
  \<open>start_monitoring\<close> sent with it by the dashboard on socket \<open>A1\<close> is not dropped but
  broadcast as \<open>START_AUDIO\<close> to the two other connections. It also fails for a target
  that is not a string and has no string conversion: \<open>hide_app\<close> sent with the object
  \<open>{"toString": 1}\<close> throws a TypeError in the listener's log line.
\<close>

theorem unknown_target_counterexample:
  "devices_get (devices example_state) (JStr []) = None
   \<and> on example_env (clock_at 9) example_state ''A1'' Start_monitoring (JStr [])
       = Inr (example_state, [(''S1'', ''START_AUDIO'', []), (''S2'', ''START_AUDIO'', [])])
   \<and> devices_get (devices example_state) (JObj [(''toString'', JNum 1)]) = None
   \<and> on example_env (clock_at 9) example_state ''A1'' Hide_app (JObj [(''toString'', JNum 1)])
       = Inl TypeError"
  by (simp add: example_state_def example_env_def devices_get_def broadcast_emit_def
      socket_ids_def)

text \<open>
  C9. A connection that declares \<open>type=device\<close> and has no \<open>deviceId\<close> is registered
  all the same, under the absent key: the transport's connection is accepted, the
  registry's keys are the old ones and the absent key, and the entry under the absent key
  refers to the new connection. A second such connection overwrites that entry: the
  keys stay the same and the entry now refers to the second connection.
\<close>

theorem device_without_id_registers:
  assumes "qtype q = Some ''device''" "qdeviceId q = None"
    and "qtype q' = Some ''device''" "qdeviceId q' = None"
    and "sid \<noteq> []" "sid \<notin> set (socket_ids st)"
  shows "step env clk st (Connection sid q) = Inr (connection clk st sid q)
    \<and> map_of (devices (fst (connection clk st sid q))) None
        = Some \<lparr>socketId = sid, name = display_name q, connectedAt = clk 0, lastSeen = None\<rparr>
    \<and> set (map fst (devices (fst (connection clk st sid q))))
        = insert None (set (map fst (devices st)))
    \<and> map_of (devices (fst (connection clk' (fst (connection clk st sid q)) sid' q'))) None
        = Some \<lparr>socketId = sid', name = display_name q', connectedAt = clk' 0, lastSeen = None\<rparr>
    \<and> map fst (devices (fst (connection clk' (fst (connection clk st sid q)) sid' q')))
        = map fst (devices (fst (connection clk st sid q)))"
  using assms by (auto simp: connection_device map_of_map_set keys_map_set)

theorem device_without_id_registers_witness:
  "qtype (device_query None) = Some ''device'' \<and> qdeviceId (device_query None) = None
   \<and> ''S3'' \<noteq> [] \<and> ''S3'' \<notin> set (socket_ids example_state)
   \<and> step example_env (clock_at 5) example_state (Connection ''S3'' (device_query None))
       = Inr (connection (clock_at 5) example_state ''S3'' (device_query None))
   \<and> map_of (devices (fst (connection (clock_at 5) example_state ''S3'' (device_query None)))) None
       = Some \<lparr>socketId = ''S3'', name = display_name (device_query None),
               connectedAt = clock_at 5 0, lastSeen = None\<rparr>
   \<and> set (map fst (devices (fst (connection (clock_at 5) example_state ''S3'' (device_query None)))))
       = insert None (set (map fst (devices example_state)))
   \<and> map_of (devices (fst (connection (clock_at 6)
         (fst (connection (clock_at 5) example_state ''S3'' (device_query None)))
         ''S4'' (device_query None)))) None
       = Some \<lparr>socketId = ''S4'', name = display_name (device_query None),
               connectedAt = clock_at 6 0, lastSeen = None\<rparr>
   \<and> map fst (devices (fst (connection (clock_at 6)
         (fst (connection (clock_at 5) example_state ''S3'' (device_query None)))
         ''S4'' (device_query None))))
       = map fst (devices (fst (connection (clock_at 5) example_state ''S3'' (device_query None))))"
proof -
  have h: "qtype (device_query None) = Some ''device''" "qdeviceId (device_query None) = None"
    "''S3'' \<noteq> []" "''S3'' \<notin> set (socket_ids example_state)"
    by (simp_all add: device_query_def example_state_def socket_ids_def)
  from device_without_id_registers[OF h(1) h(2) h(1) h(2) h(3) h(4),
      of example_env "clock_at 5" "clock_at 6" "''S4''"] h
  show ?thesis by blast
qed

text \<open>
  C10. An event that is not a device connection, a device disconnection or a
  \<open>heartbeat\<close> (\<open>registry_event\<close>) leaves the device registry as it was: the same
  keys in the same order and the same socketId, name, connectedAt and lastSeen in every
  entry. This covers every message listener but \<open>heartbeat\<close>, and the connection and
  disconnection of a dashboard. (A listener that throws has changed nothing before it
  throws.)
\<close>

theorem registry_frame:
  "\<not> registry_event st e \<Longrightarrow> step env clk st e = Inr (st', out)
   \<Longrightarrow> devices st' = devices st"
proof (cases e)
  case (Connection sid q)
  assume "\<not> registry_event st e" "step env clk st e = Inr (st', out)"
  then show ?thesis
    using Connection by (auto simp: registry_event_def connection_def Let_def split: if_splits)
next
  case (Disconnect sid)
  assume "\<not> registry_event st e" "step env clk st e = Inr (st', out)"
  then show ?thesis
    using Disconnect
    by (auto simp: registry_event_def disconnect_def Let_def split: option.splits if_splits)
next
  case (Message sid ev data)
  assume "\<not> registry_event st e" "step env clk st e = Inr (st', out)"
  then show ?thesis
    using Message on_frame[of ev env clk st sid data "(st', out)"]
    by (auto simp: registry_event_def split: if_splits)
qed

theorem registry_frame_witness:
  "\<not> registry_event example_state (Message ''A1'' Start_monitoring (JStr ''D1''))
   \<and> step example_env (clock_at 9) example_state (Message ''A1'' Start_monitoring (JStr ''D1''))
       = Inr (example_state, [(''S1'', ''START_AUDIO'', [JNull])])
   \<and> devices example_state = devices example_state
   \<and> \<not> registry_event example_state (Disconnect ''A1'')
   \<and> step example_env (clock_at 9) example_state (Disconnect ''A1'')
       = Inr (example_state\<lparr>sockets := [(''S1'', device_query (Some ''D1'')),
                                          (''S2'', device_query None)]\<rparr>, [])
   \<and> devices (example_state\<lparr>sockets := [(''S1'', device_query (Some ''D1'')),
                                         (''S2'', device_query None)]\<rparr>)
       = devices example_state"
proof -
  have a: "\<not> registry_event example_state (Message ''A1'' Start_monitoring (JStr ''D1''))"
    "\<not> registry_event example_state (Disconnect ''A1'')"
    by (simp_all add: registry_event_def example_state_def controller_query_def)
  have b: "step example_env (clock_at 9) example_state
             (Message ''A1'' Start_monitoring (JStr ''D1''))
           = Inr (example_state, [(''S1'', ''START_AUDIO'', [JNull])])"
    by (simp add: example_state_def socket_ids_def sendToDevice_def devices_get_def
        io_to_emit_def)
  have c: "step example_env (clock_at 9) example_state (Disconnect ''A1'')
       = Inr (example_state\<lparr>sockets := [(''S1'', device_query (Some ''D1'')),
                                          (''S2'', device_query None)]\<rparr>, [])"
    by (simp add: example_state_def disconnect_def controller_query_def Let_def)
  from registry_frame[OF a(1) b] registry_frame[OF a(2) c] a b c
  show ?thesis by simp
qed

end
